theory Spec2Isabelle
  imports Complex_Main "HOL-Library.AList" "HOL-Library.Sublist"
begin

section \<open>Retrieval-augmented query pipeline of video-agent\<close>

text \<open>
  A shallow embedding of \<^verbatim>\<open>src/backend/rag_engine.py\<close>, of the query routing of
  \<^verbatim>\<open>src/backend/query_handler.py\<close> and of the snippet loop of
  \<^verbatim>\<open>src/backend/api.py\<close>.

  Conventions. Python \<^verbatim>\<open>str\<close> is \<^typ>\<open>string\<close>; every operation the code applies
  to a string (length, slicing, concatenation, replacement) acts on it as a list, so one
  \<^typ>\<open>char\<close> stands for one code point. Python numbers that carry seconds or distances
  are \<^typ>\<open>real\<close>: the arithmetic is the exact one, rounding of binary floating point is
  outside the model. A raised exception is the left summand of the result type.
\<close>

subsection \<open>Errors\<close>

datatype py_error =
    ValueError
  | KeyError
  | TypeError
  | AttributeError
  | IndexError
  | JSONDecodeError
  | EmbeddingServiceError
  | IndexServiceError
  | LanguageModelServiceError
  | SnippetFileError

subsection \<open>Transcripts and chunks\<close>

record segment =
  seg_text :: string
  seg_start :: real
  seg_end :: real

record transcript =
  segments :: "segment list"
  full_text :: string

record chunk =
  chunk_text :: string
  chunk_start :: real
  chunk_end :: real

text \<open>\<^verbatim>\<open>sep.join(xs)\<close>.\<close>

fun py_join :: "string \<Rightarrow> string list \<Rightarrow> string" where
  "py_join sep [] = []"
| "py_join sep [x] = x"
| "py_join sep (x # y # ys) = x @ sep @ py_join sep (y # ys)"

text \<open>
  The loop of \<^verbatim>\<open>chunk_transcript\<close> (rag_engine.py, lines 72-88). The arguments after
  the threshold are the segments still to visit and the loop variables
  \<^verbatim>\<open>current_texts\<close>, \<^verbatim>\<open>current_start\<close>, \<^verbatim>\<open>current_end\<close>, \<^verbatim>\<open>chunks\<close>. The test
  \<^verbatim>\<open>i == len(transcript["segments"]) - 1\<close> holds exactly at the last segment, that is
  when no segment remains after the current one.
\<close>

fun chunk_loop ::
  "int \<Rightarrow> segment list \<Rightarrow> string list \<Rightarrow> real \<Rightarrow> real \<Rightarrow> chunk list \<Rightarrow> chunk list" where
  "chunk_loop min_chunk_length [] current_texts current_start current_end chunks = chunks"
| "chunk_loop min_chunk_length (seg # rest) current_texts current_start current_end chunks =
     (let current_start' = (if current_texts = [] then seg_start seg else current_start);
          current_texts' = current_texts @ [seg_text seg];
          current_end' = seg_end seg;
          text' = py_join '' '' current_texts'
      in if int (length text') \<ge> min_chunk_length \<or> rest = []
         then chunk_loop min_chunk_length rest [] current_start' current_end'
                (chunks @ [\<lparr>chunk_text = text', chunk_start = current_start',
                            chunk_end = current_end'\<rparr>])
         else chunk_loop min_chunk_length rest current_texts' current_start' current_end'
                chunks)"

definition chunk_transcript :: "transcript \<Rightarrow> int \<Rightarrow> chunk list" where
  "chunk_transcript t min_chunk_length =
     chunk_loop min_chunk_length (segments t) [] 0 0 []"

text \<open>The default \<^verbatim>\<open>min_chunk_length = 100\<close>, used by \<^verbatim>\<open>index_transcript\<close>.\<close>

definition default_min_chunk_length :: int where
  "default_min_chunk_length = 100"

text \<open>A string with its space characters removed.\<close>

definition strip_spaces :: "string \<Rightarrow> string" where
  "strip_spaces s = filter (\<lambda>c. c \<noteq> CHR '' '') s"

subsection \<open>Strings\<close>

text \<open>\<^verbatim>\<open>str(i)\<close> for a non-negative integer: its decimal digits.\<close>

definition digit_char :: "nat \<Rightarrow> char" where
  "digit_char d = char_of (48 + d)"

fun str_nat :: "nat \<Rightarrow> string" where
  "str_nat n = (if n < 10 then [digit_char n] else str_nat (n div 10) @ [digit_char (n mod 10)])"

declare str_nat.simps [simp del]

text \<open>
  \<^verbatim>\<open>s.replace(old, new)\<close>: every non-overlapping occurrence of \<^verbatim>\<open>old\<close>, scanning from
  the left, is replaced. For the empty \<^verbatim>\<open>old\<close> Python puts \<^verbatim>\<open>new\<close> before every
  character and at the end.
\<close>

function str_replace :: "string \<Rightarrow> string \<Rightarrow> string \<Rightarrow> string" where
  "str_replace old new [] = (if old = [] then new else [])"
| "str_replace old new (c # cs) =
     (if old = [] then new @ concat (map (\<lambda>x. x # new) (c # cs))
      else if prefix old (c # cs) then new @ str_replace old new (drop (length old) (c # cs))
      else c # str_replace old new cs)"
  by pat_completeness auto
termination
  by (relation "measure (\<lambda>(old, new, s). length s)") (auto simp: neq_Nil_conv)

subsection \<open>Embedding gateway\<close>

type_synonym vector = "real list"

text \<open>
  \<^verbatim>\<open>generate_embeddings\<close> (rag_engine.py, lines 41-53). The embedding service call
  \<^verbatim>\<open>client.embeddings.create\<close> is the parameter \<open>embed_api\<close>: it returns the vectors
  of one batch or raises. The loop takes batches of 100 texts in order and stops at the
  first batch that raises.
\<close>

function generate_embeddings ::
  "(string list \<Rightarrow> py_error + vector list) \<Rightarrow> string list \<Rightarrow> py_error + vector list" where
  "generate_embeddings embed_api texts =
     (if texts = [] then Inr []
      else case embed_api (take 100 texts) of
             Inl e \<Rightarrow> Inl e
           | Inr batch_embeddings \<Rightarrow>
               (case generate_embeddings embed_api (drop 100 texts) of
                  Inl e \<Rightarrow> Inl e
                | Inr all_embeddings \<Rightarrow> Inr (batch_embeddings @ all_embeddings)))"
  by pat_completeness auto
termination
  by (relation "measure (\<lambda>(embed_api, texts). length texts)") auto

declare generate_embeddings.simps [simp del]

subsection \<open>Index store\<close>

text \<open>
  The vector index (chromadb) is a service outside the repository. A collection is a
  dictionary from member ids to members, kept as an association list with distinct keys;
  the store is a dictionary from collection names to collections. The module variable
  \<^verbatim>\<open>_current_collection_name\<close> is the second field of the state.
\<close>

record member =
  m_document :: string
  m_embedding :: vector
  m_start :: real
  m_end :: real

type_synonym collection = "(string \<times> member) list"

record rag_state =
  collections :: "(string \<times> collection) list"
  current_collection_name :: "string option"

text \<open>
  Modelled from the spec: the operations of the vector index service, which the source
  only calls (section 4.3: create-or-replace returns the existing collection if present,
  clear and delete remove members, upsert associates each id with its data, exists).
  \<^verbatim>\<open>get_or_create_collection\<close> leaves an existing collection as it is and creates an
  empty one otherwise.
\<close>

definition get_or_create_collection :: "string \<Rightarrow> rag_state \<Rightarrow> rag_state" where
  "get_or_create_collection name st =
     (case map_of (collections st) name of
        Some c \<Rightarrow> st
      | None \<Rightarrow> st\<lparr>collections := AList.update name [] (collections st)\<rparr>)"

text \<open>Modelled from the spec: \<^verbatim>\<open>collection.get()["ids"]\<close>, the ids of all members.\<close>

definition collection_get_ids :: "collection \<Rightarrow> string list" where
  "collection_get_ids c = map fst c"

text \<open>Modelled from the spec: \<^verbatim>\<open>collection.delete(ids=...)\<close> removes the members named.\<close>

definition collection_delete :: "string list \<Rightarrow> collection \<Rightarrow> collection" where
  "collection_delete ids c = filter (\<lambda>kv. fst kv \<notin> set ids) c"

text \<open>
  Modelled from the spec: \<^verbatim>\<open>collection.add(documents, embeddings, metadatas, ids)\<close>
  stores one member per id (section 4.3, upsert). The service rejects a batch whose four
  lists differ in length, and an empty batch (section 7 lists indexing a transcript with
  zero segments as a failure).
\<close>

definition collection_add ::
  "string list \<Rightarrow> vector list \<Rightarrow> (real \<times> real) list \<Rightarrow> string list \<Rightarrow> collection
     \<Rightarrow> py_error + collection" where
  "collection_add documents embeddings metadatas ids c =
     (if ids = [] \<or> length documents \<noteq> length ids \<or> length embeddings \<noteq> length ids
           \<or> length metadatas \<noteq> length ids
      then Inl ValueError
      else Inr (fold (\<lambda>(k, v). AList.update k v)
                  (zip ids (map (\<lambda>(d, e, m). \<lparr>m_document = d, m_embedding = e,
                                               m_start = fst m, m_end = snd m\<rparr>)
                             (zip documents (zip embeddings metadatas))))
                  c))"

text \<open>Number of members of the collection of a name (0 when there is none).\<close>

definition collection_count :: "rag_state \<Rightarrow> string \<Rightarrow> nat" where
  "collection_count st name =
     (case map_of (collections st) name of None \<Rightarrow> 0 | Some c \<Rightarrow> length c)"

subsection \<open>Retriever: indexing\<close>

text \<open>
  The collection name of \<^verbatim>\<open>index_transcript\<close> (lines 107-111). \<^verbatim>\<open>not video_id\<close> holds
  for \<^verbatim>\<open>None\<close> and for the empty string. \<open>md5_hexdigest\<close> stands for
  \<^verbatim>\<open>hashlib.md5(s.encode()).hexdigest()\<close>.
\<close>

definition derive_collection_name ::
  "(string \<Rightarrow> string) \<Rightarrow> transcript \<Rightarrow> string option \<Rightarrow> string" where
  "derive_collection_name md5_hexdigest t video_id =
     (let derived = (let content_hash = md5_hexdigest (take 1000 (full_text t))
                     in ''video_'' @ take 12 content_hash);
          video_id' = (case video_id of
                         None \<Rightarrow> derived
                       | Some v \<Rightarrow> if v = [] then derived else v)
      in ''transcript_'' @ video_id')"

text \<open>
  \<^verbatim>\<open>index_transcript\<close> (lines 93-144). The result pairs what the call returns or raises
  with the state it leaves: an exception does not undo the writes made before it.
\<close>

definition index_transcript ::
  "(string \<Rightarrow> string) \<Rightarrow> (string list \<Rightarrow> py_error + vector list) \<Rightarrow> transcript
     \<Rightarrow> string option \<Rightarrow> rag_state \<Rightarrow> (py_error + string) \<times> rag_state" where
  "index_transcript md5_hexdigest embed_api t video_id st =
     (let collection_name = derive_collection_name md5_hexdigest t video_id;
          st1 = get_or_create_collection collection_name st;
          collection = (case map_of (collections st1) collection_name of
                          Some c \<Rightarrow> c | None \<Rightarrow> []);
          existing = collection_get_ids collection;
          collection' = (if existing \<noteq> [] then collection_delete existing collection
                         else collection);
          st2 = st1\<lparr>collections := AList.update collection_name collection' (collections st1)\<rparr>;
          chunks = chunk_transcript t default_min_chunk_length;
          documents = map chunk_text chunks;
          metadatas = map (\<lambda>c. (chunk_start c, chunk_end c)) chunks;
          ids = map (\<lambda>i. ''chunk_'' @ str_nat i) [0..<length chunks]
      in case generate_embeddings embed_api documents of
           Inl e \<Rightarrow> (Inl e, st2)
         | Inr embeddings \<Rightarrow>
             (case collection_add documents embeddings metadatas ids collection' of
                Inl e \<Rightarrow> (Inl e, st2)
              | Inr collection'' \<Rightarrow>
                  (Inr collection_name,
                   st2\<lparr>collections := AList.update collection_name collection'' (collections st2),
                       current_collection_name := Some collection_name\<rparr>)))"

subsection \<open>Retriever: search\<close>

text \<open>One entry of what the index returns for a query, and one search result.\<close>

record hit =
  hit_document :: string
  hit_start :: real
  hit_end :: real
  hit_distance :: real

record search_result =
  res_text :: string
  res_start :: real
  res_end :: real
  res_relevance :: real

text \<open>
  The formatting loop of \<^verbatim>\<open>search\<close> (lines 178-185). The subtraction of line 184 is
  the exact one here; the code subtracts doubles, so the two agree wherever
  \<open>1 - distance\<close> is a double, as it is for the distance \<open>3/2\<close> used below.
\<close>

definition format_results :: "hit list \<Rightarrow> search_result list" where
  "format_results hits =
     map (\<lambda>h. \<lparr>res_text = hit_document h, res_start = hit_start h, res_end = hit_end h,
               res_relevance = 1 - hit_distance h\<rparr>) hits"

text \<open>
  \<^verbatim>\<open>search\<close> (lines 147-187). \<open>index_query\<close> stands for \<^verbatim>\<open>collection.query\<close> of the
  index service: from the collection, the query vector and \<^verbatim>\<open>n_results\<close> it returns the
  hits with their distances, or raises. \<^verbatim>\<open>chroma_client.get_collection\<close> raises for a
  name that has no collection.
\<close>

definition search ::
  "(string list \<Rightarrow> py_error + vector list)
     \<Rightarrow> (collection \<Rightarrow> vector \<Rightarrow> int \<Rightarrow> py_error + hit list)
     \<Rightarrow> string \<Rightarrow> int \<Rightarrow> string option \<Rightarrow> rag_state \<Rightarrow> py_error + search_result list" where
  "search embed_api index_query query n_results collection_name st =
     (let name = (case collection_name of
                    None \<Rightarrow> current_collection_name st
                  | Some n \<Rightarrow> if n = [] then current_collection_name st else Some n)
      in case name of
           None \<Rightarrow> Inl ValueError
         | Some n \<Rightarrow>
             if n = [] then Inl ValueError
             else (case map_of (collections st) n of
                     None \<Rightarrow> Inl IndexServiceError
                   | Some collection \<Rightarrow>
                       (case generate_embeddings embed_api [query] of
                          Inl e \<Rightarrow> Inl e
                        | Inr embeddings \<Rightarrow>
                            (case embeddings of
                               Nil \<Rightarrow> Inl IndexError
                             | query_embedding # _ \<Rightarrow>
                                 (case index_query collection query_embedding n_results of
                                    Inl e \<Rightarrow> Inl e
                                  | Inr hits \<Rightarrow> Inr (format_results hits))))))"

subsection \<open>Self-healing index guard\<close>

definition collection_exists :: "string \<Rightarrow> rag_state \<Rightarrow> bool" where
  "collection_exists collection_name st = (map_of (collections st) collection_name \<noteq> None)"

text \<open>
  \<^verbatim>\<open>ensure_collection_indexed\<close> (lines 257-284). \<^verbatim>\<open>not transcript\<close> holds for
  \<^verbatim>\<open>None\<close>; \<^verbatim>\<open>not transcript.get("segments")\<close> holds for an empty segment list.
\<close>

definition ensure_collection_indexed ::
  "(string \<Rightarrow> string) \<Rightarrow> (string list \<Rightarrow> py_error + vector list) \<Rightarrow> string
     \<Rightarrow> transcript option \<Rightarrow> rag_state \<Rightarrow> (py_error + bool) \<times> rag_state" where
  "ensure_collection_indexed md5_hexdigest embed_api collection_name t st =
     (if collection_exists collection_name st
      then (Inr True, st\<lparr>current_collection_name := Some collection_name\<rparr>)
      else case t of
             None \<Rightarrow> (Inr False, st)
           | Some tr \<Rightarrow>
               if segments tr = [] then (Inr False, st)
               else (let video_id = str_replace ''transcript_'' [] collection_name
                     in case index_transcript md5_hexdigest embed_api tr (Some video_id) st of
                          (Inl e, st') \<Rightarrow> (Inl e, st')
                        | (Inr new_collection_name, st') \<Rightarrow>
                            (Inr True,
                             st'\<lparr>current_collection_name := Some new_collection_name\<rparr>)))"


subsection \<open>Parsed language-model output\<close>

text \<open>
  What \<^verbatim>\<open>json.loads\<close> returns. An object is the dictionary it denotes, kept as an
  association list that is read with \<^const>\<open>map_of\<close>.
\<close>

datatype json =
    JNull
  | JBool bool
  | JNum real
  | JStr string
  | JArr "json list"
  | JObj "(string \<times> json) list"

text \<open>\<^verbatim>\<open>d[key]\<close> for a string key: only a dictionary can be read this way.\<close>

definition py_getitem :: "json \<Rightarrow> string \<Rightarrow> py_error + json" where
  "py_getitem d key =
     (case d of
        JObj kvs \<Rightarrow> (case map_of kvs key of None \<Rightarrow> Inl KeyError | Some v \<Rightarrow> Inr v)
      | _ \<Rightarrow> Inl TypeError)"

text \<open>\<^verbatim>\<open>d.get(key, default)\<close>: the default is used only when the key is absent.\<close>

definition py_get :: "json \<Rightarrow> string \<Rightarrow> json \<Rightarrow> py_error + json" where
  "py_get d key dflt =
     (case d of
        JObj kvs \<Rightarrow> (case map_of kvs key of None \<Rightarrow> Inr dflt | Some v \<Rightarrow> Inr v)
      | _ \<Rightarrow> Inl AttributeError)"

text \<open>
  The number a value is in an arithmetic comparison with a float; \<^verbatim>\<open>None\<close>, strings,
  lists and dictionaries raise \<^verbatim>\<open>TypeError\<close> there.
\<close>

definition py_num :: "json \<Rightarrow> py_error + real" where
  "py_num v =
     (case v of
        JNum r \<Rightarrow> Inr r
      | JBool b \<Rightarrow> Inr (if b then 1 else 0)
      | _ \<Rightarrow> Inl TypeError)"

subsection \<open>Intent router\<close>

text \<open>
  \<^verbatim>\<open>detect_intent\<close> (query_handler.py, lines 20-60). \<open>chat\<close> is the completion call
  of line 50: it raises, or returns \<^verbatim>\<open>response.choices[0].message.content\<close>, which is
  a string or \<^verbatim>\<open>None\<close>. \<open>json_loads\<close> is \<^verbatim>\<open>json.loads\<close> on a string,
  \<^const>\<open>None\<close> where it raises \<^verbatim>\<open>JSONDecodeError\<close>; on \<^verbatim>\<open>None\<close> it raises
  \<^verbatim>\<open>TypeError\<close>. The function returns the parsed value as it is.
\<close>

definition detect_intent ::
  "(string \<Rightarrow> py_error + string option) \<Rightarrow> (string \<Rightarrow> json option) \<Rightarrow> string
     \<Rightarrow> py_error + json" where
  "detect_intent chat json_loads user_query =
     (case chat user_query of
        Inl e \<Rightarrow> Inl e
      | Inr reply \<Rightarrow>
          (case reply of
             None \<Rightarrow> Inl TypeError
           | Some content \<Rightarrow>
               (case json_loads content of
                  None \<Rightarrow> Inl JSONDecodeError
                | Some v \<Rightarrow> Inr v)))"

text \<open>The five intent types named in the docstring and the prompt of \<^verbatim>\<open>detect_intent\<close>.\<close>

definition intent_types :: "string list" where
  "intent_types = [''search'', ''question'', ''snippet'', ''summary'', ''keypoints'']"

text \<open>The expected shape: an object whose intent is one of the five and whose topic is a string.\<close>

definition well_formed_intent :: "json \<Rightarrow> bool" where
  "well_formed_intent v =
     (case v of
        JObj kvs \<Rightarrow>
          (case (map_of kvs ''intent'', map_of kvs ''topic'') of
             (Some (JStr i), Some (JStr t)) \<Rightarrow> i \<in> set intent_types
           | _ \<Rightarrow> False)
      | _ \<Rightarrow> False)"

subsection \<open>Time windows\<close>

record timestamp =
  ts_start :: real
  ts_end :: real
  ts_text :: string

text \<open>\<^verbatim>\<open>find_timestamps_for_topic\<close> keeps start, end and text of every search result.\<close>

definition timestamp_of :: "search_result \<Rightarrow> timestamp" where
  "timestamp_of r = \<lparr>ts_start = res_start r, ts_end = res_end r, ts_text = res_text r\<rparr>"

text \<open>\<^verbatim>\<open>min\<close> and \<^verbatim>\<open>max\<close> over a sequence with first element \<open>x\<close>.\<close>

definition py_min :: "real \<Rightarrow> real list \<Rightarrow> real" where
  "py_min x xs = fold (\<lambda>y m. if y < m then y else m) xs x"

definition py_max :: "real \<Rightarrow> real list \<Rightarrow> real" where
  "py_max x xs = fold (\<lambda>y m. if y > m then y else m) xs x"

text \<open>
  The window of the snippet strategy (query_handler.py, lines 258-265) from the
  timestamps and the value of \<^verbatim>\<open>max_duration\<close>. The branch is entered with a non-empty
  list only; \<^verbatim>\<open>min\<close> of an empty sequence raises \<^verbatim>\<open>ValueError\<close>.
\<close>

definition snippet_window :: "timestamp list \<Rightarrow> json \<Rightarrow> py_error + (real \<times> real)" where
  "snippet_window timestamps max_duration =
     (case timestamps of
        [] \<Rightarrow> Inl ValueError
      | t0 # ts \<Rightarrow>
          (let start = max 0 (py_min (ts_start t0) (map ts_start ts) - 2);
               end = py_max (ts_end t0) (map ts_end ts) + 2
           in case py_num max_duration of
                Inl e \<Rightarrow> Inl e
              | Inr md \<Rightarrow>
                  if end - start > md
                  then (let center = (ts_start t0 + ts_end t0) / 2
                        in Inr (max 0 (center - md / 2), center + md / 2))
                  else Inr (start, end)))"

text \<open>
  The window of one result in \<^verbatim>\<open>create_snippet_from_query\<close> (api.py, lines 546-557),
  and the windows of the whole loop. \<^verbatim>\<open>max_duration\<close> is a float field of the request.
\<close>

definition api_snippet_window :: "search_result \<Rightarrow> real \<Rightarrow> real \<times> real" where
  "api_snippet_window result max_duration =
     (let padding = 2;
          start = max 0 (res_start result - padding);
          end = res_end result + padding
      in if end - start > max_duration
         then (let center = (res_start result + res_end result) / 2
               in (max 0 (center - max_duration / 2), center + max_duration / 2))
         else (start, end))"

definition api_snippet_windows :: "search_result list \<Rightarrow> real \<Rightarrow> (real \<times> real) list" where
  "api_snippet_windows results max_duration =
     map (\<lambda>result. api_snippet_window result max_duration) results"

text \<open>
  The resolver as section 4.8 of the specification words it, for comparison with the two
  functions above: widen to \<open>max(0, min(all starts) - padding)\<close> and
  \<open>max(all ends) + padding\<close>; if the width exceeds \<open>max_duration\<close>, take the symmetric
  window of that width around the midpoint of the first span, floored at 0.
\<close>

definition spec_resolve :: "(real \<times> real) list \<Rightarrow> real \<Rightarrow> real \<Rightarrow> real \<times> real" where
  "spec_resolve candidate_spans padding max_duration =
     (let start = max 0 (Min (set (map fst candidate_spans)) - padding);
          end = Max (set (map snd candidate_spans)) + padding
      in if end - start > max_duration
         then (let mid = (fst (hd candidate_spans) + snd (hd candidate_spans)) / 2
               in (max 0 (mid - max_duration / 2), mid + max_duration / 2))
         else (start, end))"

definition span_of :: "timestamp \<Rightarrow> real \<times> real" where
  "span_of t = (ts_start t, ts_end t)"


subsection \<open>Response strategies\<close>

text \<open>
  The text stored under \<^verbatim>\<open>"response"\<close>. The formatted strings are kept as a
  constructor with the values they are built from; the two fixed strings are literals.
\<close>

datatype message =
    FoundSegments nat json
  | AnswerText string
  | FoundContentAt json real
  | NoContentFound json
  | SummaryText string
  | FoundKeyPoints nat
  | Literal string

text \<open>
  The dictionary \<^verbatim>\<open>handle_user_query\<close> returns. A key that was never assigned is
  \<^const>\<open>None\<close>; \<^verbatim>\<open>"timestamps"\<close> can also be assigned \<^verbatim>\<open>None\<close>.
\<close>

record response =
  r_intent :: json
  r_query :: string
  r_results :: "search_result list option"
  r_response :: "message option"
  r_timestamps :: "(real \<times> real) option option"
  r_context :: "string option"
  r_snippet_path :: "string option"
  r_key_points :: "json list option"

text \<open>
  What \<^verbatim>\<open>handle_user_query\<close> calls outside itself: the completion call and the parser
  of \<^verbatim>\<open>detect_intent\<close>, \<^verbatim>\<open>rag_engine.search\<close> on the state of the process (topic and
  \<^verbatim>\<open>n_results\<close>), \<^verbatim>\<open>answer_question\<close>, \<^verbatim>\<open>generate_summary\<close>,
  \<^verbatim>\<open>_extract_quick_keypoints\<close> and \<^verbatim>\<open>create_video_snippet\<close>. Each returns or raises.
\<close>

record collaborators =
  chat_classify :: "string \<Rightarrow> py_error + string option"
  json_loads :: "string \<Rightarrow> json option"
  rag_search :: "json \<Rightarrow> int \<Rightarrow> py_error + search_result list"
  answer_question :: "json \<Rightarrow> transcript option \<Rightarrow> (string \<times> string) list \<Rightarrow> py_error + string"
  generate_summary :: "transcript \<Rightarrow> py_error + string"
  extract_quick_keypoints :: "transcript \<Rightarrow> py_error + json list"
  create_video_snippet :: "string \<Rightarrow> real \<Rightarrow> real \<Rightarrow> py_error + string"

text \<open>The snippet branch (lines 254-278).\<close>

definition snippet_strategy ::
  "collaborators \<Rightarrow> json \<Rightarrow> json \<Rightarrow> string option \<Rightarrow> response \<Rightarrow> py_error + response" where
  "snippet_strategy ext intent_result topic video_path response =
     (case rag_search ext topic 3 of
        Inl e \<Rightarrow> Inl e
      | Inr results \<Rightarrow>
          (case map timestamp_of results of
             Nil \<Rightarrow>
               Inr (response\<lparr>r_response := Some (NoContentFound topic),
                             r_timestamps := Some None\<rparr>)
           | t0 # ts \<Rightarrow>
               (case py_getitem intent_result ''parameters'' of
                  Inl e \<Rightarrow> Inl e
                | Inr parameters \<Rightarrow>
                    (case py_get parameters ''max_duration'' (JNum 60) of
                       Inl e \<Rightarrow> Inl e
                     | Inr max_duration \<Rightarrow>
                         (case snippet_window (t0 # ts) max_duration of
                            Inl e \<Rightarrow> Inl e
                          | Inr (start, end) \<Rightarrow>
                              (let response' =
                                     response\<lparr>r_timestamps := Some (Some (start, end)),
                                              r_context := Some (ts_text t0),
                                              r_response := Some (FoundContentAt topic start)\<rparr>
                               in case video_path of
                                    None \<Rightarrow> Inr response'
                                  | Some path \<Rightarrow>
                                      if path = [] then Inr response'
                                      else (case create_video_snippet ext path start end of
                                              Inl e \<Rightarrow> Inl e
                                            | Inr snippet_path \<Rightarrow>
                                                Inr (response'\<lparr>r_snippet_path :=
                                                                  Some snippet_path\<rparr>))))))))"

text \<open>
  \<^verbatim>\<open>handle_user_query\<close> (lines 220-296). \<^verbatim>\<open>if transcript\<close> fails for \<^verbatim>\<open>None\<close>. An
  intent that equals none of the five strings leaves the response with its two first keys.
\<close>

definition handle_user_query ::
  "collaborators \<Rightarrow> string \<Rightarrow> transcript option \<Rightarrow> string option \<Rightarrow> (string \<times> string) list
     \<Rightarrow> py_error + response" where
  "handle_user_query ext user_query t video_path conversation_history =
     (case detect_intent (chat_classify ext) (json_loads ext) user_query of
        Inl e \<Rightarrow> Inl e
      | Inr intent_result \<Rightarrow>
          (case py_getitem intent_result ''intent'' of
             Inl e \<Rightarrow> Inl e
           | Inr intent \<Rightarrow>
               (case py_getitem intent_result ''topic'' of
                  Inl e \<Rightarrow> Inl e
                | Inr topic \<Rightarrow>
                    (let response =
                           \<lparr>r_intent = intent, r_query = user_query, r_results = None,
                            r_response = None, r_timestamps = None, r_context = None,
                            r_snippet_path = None, r_key_points = None\<rparr>
                     in if intent = JStr ''search'' then
                          (case rag_search ext topic 5 of
                             Inl e \<Rightarrow> Inl e
                           | Inr results \<Rightarrow>
                               Inr (response\<lparr>r_results := Some results,
                                             r_response :=
                                               Some (FoundSegments (length results) topic)\<rparr>))
                        else if intent = JStr ''question'' then
                          (case answer_question ext topic t conversation_history of
                             Inl e \<Rightarrow> Inl e
                           | Inr answer \<Rightarrow>
                               Inr (response\<lparr>r_response := Some (AnswerText answer)\<rparr>))
                        else if intent = JStr ''snippet'' then
                          snippet_strategy ext intent_result topic video_path response
                        else if intent = JStr ''summary'' then
                          (case t of
                             Some tr \<Rightarrow>
                               (case generate_summary ext tr of
                                  Inl e \<Rightarrow> Inl e
                                | Inr summary \<Rightarrow>
                                    Inr (response\<lparr>r_response := Some (SummaryText summary)\<rparr>))
                           | None \<Rightarrow>
                               Inr (response\<lparr>r_response :=
                                     Some (Literal ''Transcript required for summary'')\<rparr>))
                        else if intent = JStr ''keypoints'' then
                          (case t of
                             Some tr \<Rightarrow>
                               (case extract_quick_keypoints ext tr of
                                  Inl e \<Rightarrow> Inl e
                                | Inr key_points \<Rightarrow>
                                    Inr (response\<lparr>r_key_points := Some key_points,
                                                  r_response :=
                                                    Some (FoundKeyPoints (length key_points))\<rparr>))
                           | None \<Rightarrow>
                               Inr (response\<lparr>r_response :=
                                     Some (Literal ''Transcript required for key points'')\<rparr>))
                        else Inr response))))"


subsection \<open>Example inputs\<close>

text \<open>
  Concrete collaborators and inputs on which the functions above are evaluated. The
  digest stand-in depends on the first character of its input only; the embedding
  stand-in returns one vector per text.
\<close>

definition demo_md5 :: "string \<Rightarrow> string" where
  "demo_md5 s =
     (if s \<noteq> [] \<and> hd s = CHR ''a'' then ''0123456789abcdef0123456789abcdef''
      else ''fedcba9876543210fedcba9876543210'')"

definition demo_embed :: "string list \<Rightarrow> py_error + vector list" where
  "demo_embed texts = Inr (map (\<lambda>t. [real (length t)]) texts)"

definition demo_transcript :: transcript where
  "demo_transcript =
     \<lparr>segments = [\<lparr>seg_text = ''intro'', seg_start = 0, seg_end = 5\<rparr>,
                  \<lparr>seg_text = ''thanks'', seg_start = 40, seg_end = 42\<rparr>],
      full_text = ''intro thanks''\<rparr>"

definition demo_transcript_a :: transcript where
  "demo_transcript_a =
     \<lparr>segments = [\<lparr>seg_text = ''alpha'', seg_start = 0, seg_end = 5\<rparr>],
      full_text = replicate 1000 (CHR ''a'') @ ''alpha''\<rparr>"

definition demo_transcript_b :: transcript where
  "demo_transcript_b =
     \<lparr>segments = [\<lparr>seg_text = ''beta'', seg_start = 0, seg_end = 7\<rparr>,
                  \<lparr>seg_text = ''gamma'', seg_start = 7, seg_end = 9\<rparr>],
      full_text = replicate 1000 (CHR ''a'') @ ''beta gamma''\<rparr>"

definition demo_state :: rag_state where
  "demo_state = \<lparr>collections = [], current_collection_name = None\<rparr>"

definition demo_indexed_state :: rag_state where
  "demo_indexed_state =
     \<lparr>collections = [(''transcript_abc'', [])], current_collection_name = None\<rparr>"

text \<open>A store whose collection for \<^const>\<open>demo_transcript\<close> holds two members of an older run.\<close>

definition demo_stale_state :: rag_state where
  "demo_stale_state =
     \<lparr>collections =
        [(''transcript_video_fedcba987654'',
          [(''chunk_0'', \<lparr>m_document = ''old text'', m_embedding = [8], m_start = 0, m_end = 1\<rparr>),
           (''chunk_7'', \<lparr>m_document = ''older text'', m_embedding = [10], m_start = 1,
                          m_end = 2\<rparr>)])],
      current_collection_name = None\<rparr>"

text \<open>An index that reports one hit at cosine distance 3/2.\<close>

definition demo_index_query :: "collection \<Rightarrow> vector \<Rightarrow> int \<Rightarrow> py_error + hit list" where
  "demo_index_query c v n =
     Inr [\<lparr>hit_document = ''thanks'', hit_start = 40, hit_end = 42, hit_distance = 3 / 2\<rparr>]"

text \<open>Replies of the language model and the values \<^verbatim>\<open>json.loads\<close> gives for them.\<close>

definition reply_summary :: string where
  \<open>reply_summary = ''{"intent": "summary", "topic": "the video", "parameters": {"max_duration": null, "detail_level": null}}''\<close>

definition reply_keypoints :: string where
  \<open>reply_keypoints = ''{"intent": "keypoints", "topic": "the video", "parameters": {"max_duration": null, "detail_level": null}}''\<close>

definition reply_snippet :: string where
  \<open>reply_snippet = ''{"intent": "snippet", "topic": "cats", "parameters": {"max_duration": null, "detail_level": null}}''\<close>

definition reply_greeting :: string where
  \<open>reply_greeting = ''{"intent": "greeting", "topic": "hello"}''\<close>

definition reply_summary_no_topic :: string where
  \<open>reply_summary_no_topic = ''{"intent": "summary"}''\<close>

definition null_parameters :: json where
  "null_parameters = JObj [(''max_duration'', JNull), (''detail_level'', JNull)]"

definition parsed_summary :: json where
  "parsed_summary =
     JObj [(''intent'', JStr ''summary''), (''topic'', JStr ''the video''),
           (''parameters'', null_parameters)]"

definition parsed_keypoints :: json where
  "parsed_keypoints =
     JObj [(''intent'', JStr ''keypoints''), (''topic'', JStr ''the video''),
           (''parameters'', null_parameters)]"

definition parsed_snippet :: json where
  "parsed_snippet =
     JObj [(''intent'', JStr ''snippet''), (''topic'', JStr ''cats''),
           (''parameters'', null_parameters)]"

definition parsed_greeting :: json where
  "parsed_greeting = JObj [(''intent'', JStr ''greeting''), (''topic'', JStr ''hello'')]"

definition parsed_summary_no_topic :: json where
  "parsed_summary_no_topic = JObj [(''intent'', JStr ''summary'')]"

definition demo_chat :: "string \<Rightarrow> py_error + string option" where
  "demo_chat user_query =
     (if user_query = ''summarize the video'' then Inr (Some reply_summary)
      else if user_query = ''list the key points'' then Inr (Some reply_keypoints)
      else if user_query = ''make a clip about cats'' then Inr (Some reply_snippet)
      else if user_query = ''hello'' then Inr (Some reply_greeting)
      else if user_query = ''summary'' then Inr (Some reply_summary_no_topic)
      else if user_query = ''say nothing'' then Inr None
      else Inl LanguageModelServiceError)"

definition demo_json_loads :: "string \<Rightarrow> json option" where
  "demo_json_loads content =
     (if content = reply_summary then Some parsed_summary
      else if content = reply_keypoints then Some parsed_keypoints
      else if content = reply_snippet then Some parsed_snippet
      else if content = reply_greeting then Some parsed_greeting
      else if content = reply_summary_no_topic then Some parsed_summary_no_topic
      else None)"

definition demo_result :: search_result where
  "demo_result =
     \<lparr>res_text = ''cats sleep'', res_start = 10, res_end = 12, res_relevance = 9 / 10\<rparr>"

definition demo_result2 :: search_result where
  "demo_result2 =
     \<lparr>res_text = ''cats eat'', res_start = 30, res_end = 32, res_relevance = 8 / 10\<rparr>"

definition demo_ext :: collaborators where
  "demo_ext =
     \<lparr>chat_classify = demo_chat,
      json_loads = demo_json_loads,
      rag_search = (\<lambda>topic n_results. Inr [demo_result]),
      answer_question = (\<lambda>question t history. Inr ''an answer''),
      generate_summary = (\<lambda>t. Inr ''a summary''),
      extract_quick_keypoints = (\<lambda>t. Inr []),
      create_video_snippet = (\<lambda>path start end. Inr ''snippet.mp4'')\<rparr>"


section \<open>Chunking\<close>

lemma py_join_append:
  "xs \<noteq> [] \<Longrightarrow> ys \<noteq> [] \<Longrightarrow> py_join sep (xs @ ys) = py_join sep xs @ sep @ py_join sep ys"
proof (induction sep xs rule: py_join.induct)
  case (1 sep)
  then show ?case by simp
next
  case (2 sep x)
  then show ?case by (cases ys) simp_all
next
  case (3 sep x y ys')
  then show ?case by simp
qed

lemma py_join_snoc:
  "xs \<noteq> [] \<Longrightarrow> py_join sep (xs @ [y]) = py_join sep xs @ sep @ y"
  by (simp add: py_join_append)

lemma py_join_group:
  assumes "g \<noteq> []"
  shows "py_join sep (xs @ py_join sep g # zs) = py_join sep (xs @ g @ zs)"
proof -
  have mid: "py_join sep (py_join sep g # zs) = py_join sep (g @ zs)"
  proof (cases zs)
    case Nil
    then show ?thesis by simp
  next
    case (Cons z zs')
    then show ?thesis using assms by (simp add: py_join_append)
  qed
  show ?thesis
  proof (cases xs)
    case Nil
    then show ?thesis using mid by simp
  next
    case (Cons x xs')
    then have xne: "xs \<noteq> []" by simp
    have gne: "g @ zs \<noteq> []" using assms by simp
    have "py_join sep (xs @ py_join sep g # zs)
            = py_join sep xs @ sep @ py_join sep (py_join sep g # zs)"
      by (rule py_join_append [OF xne]) simp
    also have "\<dots> = py_join sep xs @ sep @ py_join sep (g @ zs)"
      using mid by simp
    also have "\<dots> = py_join sep (xs @ g @ zs)"
      by (rule py_join_append [OF xne gne, symmetric])
    finally show ?thesis .
  qed
qed

lemma chunk_loop_join:
  "segs \<noteq> [] \<Longrightarrow>
   py_join '' '' (map chunk_text (chunk_loop m segs cur cs ce chunks))
     = py_join '' '' (map chunk_text chunks @ cur @ map seg_text segs)"
proof (induction segs arbitrary: cur cs ce chunks)
  case Nil
  then show ?case by simp
next
  case (Cons seg rest)
  let ?cur' = "cur @ [seg_text seg]"
  have ne: "?cur' \<noteq> []" by simp
  show ?case
  proof (cases "rest = []")
    case True
    have "py_join '' '' (map chunk_text chunks @ py_join '' '' ?cur' # [])
            = py_join '' '' (map chunk_text chunks @ ?cur' @ [])"
      using ne by (rule py_join_group)
    with True show ?thesis by (simp add: Let_def)
  next
    case False
    show ?thesis
    proof (cases "int (length (py_join '' '' ?cur')) \<ge> m")
      case True
      have "py_join '' '' (map chunk_text chunks @ py_join '' '' ?cur' # map seg_text rest)
              = py_join '' '' (map chunk_text chunks @ ?cur' @ map seg_text rest)"
        using ne by (rule py_join_group)
      with True False Cons.IH [OF False] show ?thesis by (simp add: Let_def)
    next
      case nolen: False
      with False Cons.IH [OF False] show ?thesis by (simp add: Let_def)
    qed
  qed
qed

lemma strip_spaces_join:
  "strip_spaces (py_join '' '' xs) = strip_spaces (concat xs)"
  by (induction "'' ''" xs rule: py_join.induct) (simp_all add: strip_spaces_def)

text \<open>
  C4. Chunking drops no content. Joining the chunk texts with single spaces gives exactly
  the space-joined text of all segments, in order; hence the concatenation of the chunk
  texts and the concatenation of the segment texts are the same string once spaces are
  removed, and no segment text is omitted. A transcript with no segments yields the empty
  chunk list, not an error. This holds for every threshold.
\<close>

theorem chunk_transcript_coverage:
  "py_join '' '' (map chunk_text (chunk_transcript t m))
     = py_join '' '' (map seg_text (segments t))
   \<and> strip_spaces (concat (map chunk_text (chunk_transcript t m)))
     = strip_spaces (concat (map seg_text (segments t)))
   \<and> chunk_transcript \<lparr>segments = [], full_text = ft\<rparr> m = []"
proof -
  have j: "py_join '' '' (map chunk_text (chunk_transcript t m))
             = py_join '' '' (map seg_text (segments t))"
  proof (cases "segments t = []")
    case True
    then show ?thesis by (simp add: chunk_transcript_def)
  next
    case False
    then show ?thesis
      unfolding chunk_transcript_def using chunk_loop_join [OF False] by simp
  qed
  have "strip_spaces (concat (map chunk_text (chunk_transcript t m)))
          = strip_spaces (py_join '' '' (map chunk_text (chunk_transcript t m)))"
    by (simp add: strip_spaces_join)
  also have "\<dots> = strip_spaces (py_join '' '' (map seg_text (segments t)))"
    using j by simp
  also have "\<dots> = strip_spaces (concat (map seg_text (segments t)))"
    by (simp add: strip_spaces_join)
  finally have s: "strip_spaces (concat (map chunk_text (chunk_transcript t m)))
          = strip_spaces (concat (map seg_text (segments t)))" .
  have e: "chunk_transcript \<lparr>segments = [], full_text = ft\<rparr> m = []"
    by (simp add: chunk_transcript_def)
  from j s e show ?thesis by simp
qed

section \<open>Time windows\<close>

lemma py_min_Min: "py_min x xs = Min (set (x # xs))"
proof -
  have "(\<lambda>y m. if y < m then y else m) = (min :: real \<Rightarrow> real \<Rightarrow> real)"
    by (auto simp: fun_eq_iff min_def)
  then have "py_min x xs = fold min xs x" by (simp add: py_min_def)
  also have "\<dots> = Min (set (x # xs))" by (rule Min.set_eq_fold [symmetric])
  finally show ?thesis .
qed

lemma py_max_Max: "py_max x xs = Max (set (x # xs))"
proof -
  have "(\<lambda>y m. if y > m then y else m) = (max :: real \<Rightarrow> real \<Rightarrow> real)"
    by (auto simp: fun_eq_iff max_def)
  then have "py_max x xs = fold max xs x" by (simp add: py_max_def)
  also have "\<dots> = Max (set (x # xs))" by (rule Max.set_eq_fold [symmetric])
  finally show ?thesis .
qed

lemma snippet_window_resolve:
  assumes "timestamps \<noteq> []"
  shows "snippet_window timestamps (JNum M) = Inr (spec_resolve (map span_of timestamps) 2 M)"
proof -
  from assms obtain t0 ts where eq: "timestamps = t0 # ts" by (cases timestamps) auto
  have mn: "py_min (ts_start t0) (map ts_start ts) = Min (set (map fst (map span_of timestamps)))"
    unfolding py_min_Min eq by (simp add: span_of_def comp_def)
  have mx: "py_max (ts_end t0) (map ts_end ts) = Max (set (map snd (map span_of timestamps)))"
    unfolding py_max_Max eq by (simp add: span_of_def comp_def)
  have hd: "hd (map span_of timestamps) = (ts_start t0, ts_end t0)"
    by (simp add: eq span_of_def)
  show ?thesis
    unfolding snippet_window_def spec_resolve_def mn [symmetric] mx [symmetric] hd
    by (simp add: eq py_num_def Let_def)
qed

lemma api_snippet_window_resolve:
  "api_snippet_window r M = spec_resolve [(res_start r, res_end r)] 2 M"
  by (simp add: api_snippet_window_def spec_resolve_def Let_def)

text \<open>
  C2. For every non-empty list of timestamps and every number \<open>M\<close> as
  \<^verbatim>\<open>max_duration\<close>, the window of the snippet strategy is the one the resolver of the
  specification gives with padding 2 (the padding is the constant 2 in the code): first
  \<open>start = max(0, min of all starts - 2)\<close> and \<open>end = max of all ends + 2\<close>, and exactly
  when \<open>end - start > M\<close> the window \<open>(max(0, c - M/2), c + M/2)\<close> around the midpoint
  \<open>c\<close> of the first timestamp. The witness evaluates the two scenarios:
  \<open>[{10,200}]\<close> gives \<open>{75, 135}\<close> and \<open>[{10,12}]\<close> gives \<open>{8, 14}\<close>.
\<close>

theorem snippet_window_widen_then_clamp:
  assumes "timestamps \<noteq> []"
  shows "snippet_window timestamps (JNum M) = Inr (spec_resolve (map span_of timestamps) 2 M)"
  using assms by (rule snippet_window_resolve)

theorem snippet_window_widen_then_clamp_witness:
  "snippet_window [\<lparr>ts_start = 10, ts_end = 200, ts_text = ''a''\<rparr>] (JNum 60) = Inr (75, 135)
   \<and> snippet_window [\<lparr>ts_start = 10, ts_end = 12, ts_text = ''a''\<rparr>] (JNum 60) = Inr (8, 14)"
proof -
  have ne1: "[\<lparr>ts_start = 10, ts_end = 200, ts_text = ''a''\<rparr>] \<noteq> []" by simp
  have ne2: "[\<lparr>ts_start = 10, ts_end = 12, ts_text = ''a''\<rparr>] \<noteq> []" by simp
  show ?thesis
    using snippet_window_widen_then_clamp [OF ne1, of 60]
          snippet_window_widen_then_clamp [OF ne2, of 60]
    by (simp add: spec_resolve_def span_of_def)
qed

lemma timestamp_span: "span_of (timestamp_of r) = (res_start r, res_end r)"
  by (simp add: span_of_def timestamp_of_def)

text \<open>
  C7, as amended. Both paths apply the same widen-then-clamp formula with padding 2, but
  they seed it differently: the batch path resolves every search result on its own, from
  the one-element span list of that result, while the snippet strategy resolves once,
  from the spans of all results. For a single result the two windows are the same.
\<close>

theorem snippet_paths_one_formula_two_seedings:
  "api_snippet_windows results M
     = map (\<lambda>r. spec_resolve [(res_start r, res_end r)] 2 M) results
   \<and> (results \<noteq> [] \<longrightarrow>
        snippet_window (map timestamp_of results) (JNum M)
          = Inr (spec_resolve (map (\<lambda>r. (res_start r, res_end r)) results) 2 M))
   \<and> (snippet_window (map timestamp_of [r]) (JNum M) = Inr w
        \<longleftrightarrow> api_snippet_windows [r] M = [w])"
proof -
  have a: "api_snippet_windows results M
             = map (\<lambda>r. spec_resolve [(res_start r, res_end r)] 2 M) results"
    by (simp add: api_snippet_windows_def api_snippet_window_resolve)
  have b: "snippet_window (map timestamp_of results) (JNum M)
             = Inr (spec_resolve (map (\<lambda>r. (res_start r, res_end r)) results) 2 M)"
    if "results \<noteq> []"
  proof -
    from that have "map timestamp_of results \<noteq> []" by simp
    then show ?thesis
      by (simp add: snippet_window_resolve comp_def timestamp_span)
  qed
  have c: "snippet_window (map timestamp_of [r]) (JNum M) = Inr w
             \<longleftrightarrow> api_snippet_windows [r] M = [w]"
    by (simp add: snippet_window_resolve timestamp_span api_snippet_windows_def
        api_snippet_window_resolve eq_commute)
  from a b c show ?thesis by blast
qed

theorem snippet_paths_one_formula_two_seedings_witness:
  "api_snippet_windows [demo_result, demo_result2] 60 = [(8, 14), (28, 34)]
   \<and> snippet_window (map timestamp_of [demo_result, demo_result2]) (JNum 60) = Inr (8, 34)
   \<and> snippet_window (map timestamp_of [demo_result]) (JNum 60) = Inr (8, 14)
   \<and> api_snippet_windows [demo_result] 60 = [(8, 14)]"
  using snippet_paths_one_formula_two_seedings
          [of "[demo_result, demo_result2]" 60 demo_result "(8, 14)"]
  by (simp add: spec_resolve_def demo_result_def demo_result2_def api_snippet_windows_def
      api_snippet_window_def)

text \<open>
  C7 as stated fails: for the same two ranked results and the same \<open>max_duration = 60\<close>
  the snippet strategy yields the one window \<open>(8, 34)\<close>, the batch path the two windows
  \<open>(8, 14)\<close> and \<open>(28, 34)\<close>.
\<close>

theorem snippet_paths_differ_counterexample:
  "snippet_window (map timestamp_of [demo_result, demo_result2]) (JNum 60) = Inr (8, 34)
   \<and> api_snippet_windows [demo_result, demo_result2] 60 = [(8, 14), (28, 34)]"
  by (simp add: snippet_window_def api_snippet_windows_def api_snippet_window_def
      timestamp_of_def demo_result_def demo_result2_def py_min_def py_max_def py_num_def)

section \<open>Search\<close>

lemma search_formats_hits:
  assumes "search embed_api index_query q n cn st = Inr results"
  shows "\<exists>c v hits. index_query c v n = Inr hits \<and> results = format_results hits"
  using assms
  by (auto simp: search_def Let_def split: option.splits if_splits sum.splits list.splits)

text \<open>
  C1. The docstring of the search endpoint (api.py, \<^verbatim>\<open>search_video\<close>) promises a
  relevance from 0 to 1 and returns the results of \<^verbatim>\<open>search\<close> unchanged, but line 184
  stores \<open>1 - distance\<close> without clamping. Evaluated where the index reports the cosine
  distance \<open>3/2\<close>: the result carries the relevance \<open>-1/2\<close>, below 0.
\<close>

theorem search_relevance_below_zero:
  "search demo_embed demo_index_query ''thanks'' 5 (Some ''transcript_abc'') demo_indexed_state
     = Inr [\<lparr>res_text = ''thanks'', res_start = 40, res_end = 42, res_relevance = - (1 / 2)\<rparr>]
   \<and> res_relevance \<lparr>res_text = ''thanks'', res_start = 40, res_end = 42,
                      res_relevance = - (1 / 2)\<rparr> < 0"
  by (simp add: search_def demo_embed_def demo_index_query_def demo_indexed_state_def
      generate_embeddings.simps format_results_def)

section \<open>Intent routing and response strategies\<close>

lemmas demo_reply_defs =
  reply_summary_def reply_keypoints_def reply_snippet_def reply_greeting_def
  reply_summary_no_topic_def
  parsed_summary_def parsed_keypoints_def parsed_snippet_def parsed_greeting_def
  parsed_summary_no_topic_def
  null_parameters_def demo_chat_def demo_json_loads_def


text \<open>
  C6. The prompt of \<^verbatim>\<open>detect_intent\<close> asks for \<^verbatim>\<open>"max_duration": null\<close> when no
  duration is mentioned. The key is then present, \<^verbatim>\<open>.get("max_duration", 60)\<close> returns
  \<^verbatim>\<open>None\<close> and not the default, and the comparison \<^verbatim>\<open>end - start > max_duration\<close>
  raises \<^verbatim>\<open>TypeError\<close>: the snippet strategy does not complete. Evaluated on a reply
  of that shape with one search result.
\<close>

theorem snippet_null_max_duration_raises:
  "handle_user_query demo_ext ''make a clip about cats'' None None [] = Inl TypeError"
  by (simp add: handle_user_query_def detect_intent_def demo_ext_def demo_reply_defs
      py_getitem_def py_get_def snippet_strategy_def snippet_window_def py_num_def
      timestamp_of_def demo_result_def)

lemma snippet_null_max_duration_type_error:
  assumes "detect_intent (chat_classify ext) (json_loads ext) q = Inr (JObj kvs)"
    and "map_of kvs ''intent'' = Some (JStr ''snippet'')"
    and "map_of kvs ''topic'' = Some topic"
    and "map_of kvs ''parameters'' = Some (JObj ps)"
    and "map_of ps ''max_duration'' = Some JNull"
    and "rag_search ext topic 3 = Inr (r # rs)"
  shows "handle_user_query ext q t video_path history = Inl TypeError"
  using assms
  by (simp add: handle_user_query_def py_getitem_def py_get_def snippet_strategy_def
      snippet_window_def py_num_def Let_def)

lemma snippet_default_max_duration:
  assumes "detect_intent (chat_classify ext) (json_loads ext) q = Inr (JObj kvs)"
    and "map_of kvs ''intent'' = Some (JStr ''snippet'')"
    and "map_of kvs ''topic'' = Some topic"
    and "map_of kvs ''parameters'' = Some (JObj ps)"
    and "map_of ps ''max_duration'' = None"
    and "rag_search ext topic 3 = Inr (r # rs)"
  shows "\<exists>resp s e. handle_user_query ext q t None history = Inr resp
           \<and> r_timestamps resp = Some (Some (s, e)) \<and> e - s \<le> 60"
  using assms
  by (auto simp add: handle_user_query_def py_getitem_def py_get_def snippet_strategy_def
      snippet_window_def py_num_def Let_def)

text \<open>
  C8, as amended. \<^verbatim>\<open>detect_intent\<close> validates nothing. If the completion call raises,
  that exception propagates; if the content of the reply is \<^verbatim>\<open>None\<close>, \<^verbatim>\<open>json.loads\<close>
  raises \<^verbatim>\<open>TypeError\<close>; if the content is not JSON, \<^verbatim>\<open>JSONDecodeError\<close> propagates;
  otherwise the parsed value is returned as it is, and no default intent is substituted.
  \<^verbatim>\<open>handle_user_query\<close> passes an exception of the classification on; it raises
  \<^verbatim>\<open>TypeError\<close> when the parsed value is not an object and \<^verbatim>\<open>KeyError\<close> when the
  object lacks the key \<open>intent\<close> or the key \<open>topic\<close>; for an object with both keys
  whose intent is none of the five strings it returns the response that holds the intent
  and the query only.
\<close>

theorem detect_intent_returns_parsed_reply:
  "(\<forall>e. chat q = Inl e \<longrightarrow> detect_intent chat loads q = Inl e)
   \<and> (chat q = Inr None \<longrightarrow> detect_intent chat loads q = Inl TypeError)
   \<and> (\<forall>c. chat q = Inr (Some c) \<and> loads c = None
          \<longrightarrow> detect_intent chat loads q = Inl JSONDecodeError)
   \<and> (\<forall>c v. chat q = Inr (Some c) \<and> loads c = Some v
          \<longrightarrow> detect_intent chat loads q = Inr v)
   \<and> (\<forall>e. detect_intent (chat_classify ext) (json_loads ext) q' = Inl e
          \<longrightarrow> handle_user_query ext q' t video_path history = Inl e)
   \<and> (\<forall>v. detect_intent (chat_classify ext) (json_loads ext) q' = Inr v
          \<and> (\<forall>kvs. v \<noteq> JObj kvs)
          \<longrightarrow> handle_user_query ext q' t video_path history = Inl TypeError)
   \<and> (\<forall>kvs. detect_intent (chat_classify ext) (json_loads ext) q' = Inr (JObj kvs)
          \<and> (map_of kvs ''intent'' = None \<or> map_of kvs ''topic'' = None)
          \<longrightarrow> handle_user_query ext q' t video_path history = Inl KeyError)
   \<and> (\<forall>kvs i topic.
          detect_intent (chat_classify ext) (json_loads ext) q' = Inr (JObj kvs)
          \<and> map_of kvs ''intent'' = Some i \<and> map_of kvs ''topic'' = Some topic
          \<and> i \<notin> JStr ` set intent_types
          \<longrightarrow> handle_user_query ext q' t video_path history
                = Inr \<lparr>r_intent = i, r_query = q', r_results = None, r_response = None,
                        r_timestamps = None, r_context = None, r_snippet_path = None,
                        r_key_points = None\<rparr>)"
proof -
  have a: "\<forall>e. chat q = Inl e \<longrightarrow> detect_intent chat loads q = Inl e"
    by (simp add: detect_intent_def)
  have n: "chat q = Inr None \<longrightarrow> detect_intent chat loads q = Inl TypeError"
    by (simp add: detect_intent_def)
  have b: "\<forall>c. chat q = Inr (Some c) \<and> loads c = None
             \<longrightarrow> detect_intent chat loads q = Inl JSONDecodeError"
    by (simp add: detect_intent_def)
  have c: "\<forall>c v. chat q = Inr (Some c) \<and> loads c = Some v
             \<longrightarrow> detect_intent chat loads q = Inr v"
    by (simp add: detect_intent_def)
  have d: "\<forall>e. detect_intent (chat_classify ext) (json_loads ext) q' = Inl e
             \<longrightarrow> handle_user_query ext q' t video_path history = Inl e"
    by (simp add: handle_user_query_def)
  have ty: "\<forall>v. detect_intent (chat_classify ext) (json_loads ext) q' = Inr v
          \<and> (\<forall>kvs. v \<noteq> JObj kvs)
          \<longrightarrow> handle_user_query ext q' t video_path history = Inl TypeError"
  proof (intro allI impI, elim conjE)
    fix v
    assume d: "detect_intent (chat_classify ext) (json_loads ext) q' = Inr v"
      and no: "\<forall>kvs. v \<noteq> JObj kvs"
    from no have "py_getitem v ''intent'' = Inl TypeError"
      by (cases v) (simp_all add: py_getitem_def)
    with d show "handle_user_query ext q' t video_path history = Inl TypeError"
      by (simp add: handle_user_query_def)
  qed
  have ky: "\<forall>kvs. detect_intent (chat_classify ext) (json_loads ext) q' = Inr (JObj kvs)
          \<and> (map_of kvs ''intent'' = None \<or> map_of kvs ''topic'' = None)
          \<longrightarrow> handle_user_query ext q' t video_path history = Inl KeyError"
  proof (intro allI impI, elim conjE)
    fix kvs
    assume d: "detect_intent (chat_classify ext) (json_loads ext) q' = Inr (JObj kvs)"
      and k: "map_of kvs ''intent'' = None \<or> map_of kvs ''topic'' = None"
    show "handle_user_query ext q' t video_path history = Inl KeyError"
    proof (cases "map_of kvs ''intent''")
      case None
      then have "py_getitem (JObj kvs) ''intent'' = Inl KeyError"
        by (simp add: py_getitem_def)
      with d show ?thesis by (simp add: handle_user_query_def)
    next
      case (Some i)
      with k have "map_of kvs ''topic'' = None" by simp
      then have tp: "py_getitem (JObj kvs) ''topic'' = Inl KeyError"
        by (simp add: py_getitem_def)
      from Some have "py_getitem (JObj kvs) ''intent'' = Inr i"
        by (simp add: py_getitem_def)
      with d tp show ?thesis by (simp add: handle_user_query_def)
    qed
  qed
  have e: "\<forall>kvs i topic.
          detect_intent (chat_classify ext) (json_loads ext) q' = Inr (JObj kvs)
          \<and> map_of kvs ''intent'' = Some i \<and> map_of kvs ''topic'' = Some topic
          \<and> i \<notin> JStr ` set intent_types
          \<longrightarrow> handle_user_query ext q' t video_path history
                = Inr \<lparr>r_intent = i, r_query = q', r_results = None, r_response = None,
                        r_timestamps = None, r_context = None, r_snippet_path = None,
                        r_key_points = None\<rparr>"
    by (auto simp add: handle_user_query_def py_getitem_def intent_types_def Let_def)
  show ?thesis by (intro conjI a n b c d ty ky e)
qed

theorem detect_intent_returns_parsed_reply_witness:
  "detect_intent demo_chat demo_json_loads ''hello'' = Inr parsed_greeting
   \<and> detect_intent demo_chat demo_json_loads ''what?'' = Inl LanguageModelServiceError
   \<and> detect_intent demo_chat demo_json_loads ''say nothing'' = Inl TypeError
   \<and> handle_user_query demo_ext ''summary'' None None [] = Inl KeyError
   \<and> handle_user_query demo_ext ''hello'' None None []
       = Inr \<lparr>r_intent = JStr ''greeting'', r_query = ''hello'', r_results = None,
               r_response = None, r_timestamps = None, r_context = None,
               r_snippet_path = None, r_key_points = None\<rparr>"
proof -
  have h1: "demo_chat ''hello'' = Inr (Some reply_greeting)" by (simp add: demo_chat_def)
  have h2: "demo_json_loads reply_greeting = Some parsed_greeting"
    by (simp add: demo_reply_defs)
  have h3: "demo_chat ''what?'' = Inl LanguageModelServiceError" by (simp add: demo_chat_def)
  have h3': "demo_chat ''say nothing'' = Inr None" by (simp add: demo_chat_def)
  note at_hello =
    detect_intent_returns_parsed_reply
      [of demo_chat "''hello''" demo_json_loads demo_ext "''hello''" None None "[]"]
  note at_what =
    detect_intent_returns_parsed_reply
      [of demo_chat "''what?''" demo_json_loads demo_ext "''summary''" None None "[]"]
  note at_nothing =
    detect_intent_returns_parsed_reply
      [of demo_chat "''say nothing''" demo_json_loads demo_ext "''summary''" None None "[]"]
  from at_hello have "\<forall>c v. demo_chat ''hello'' = Inr (Some c) \<and> demo_json_loads c = Some v
          \<longrightarrow> detect_intent demo_chat demo_json_loads ''hello'' = Inr v"
    by (elim conjE)
  with h1 h2 have p1: "detect_intent demo_chat demo_json_loads ''hello'' = Inr parsed_greeting"
    by simp
  from at_what have "\<forall>e. demo_chat ''what?'' = Inl e
          \<longrightarrow> detect_intent demo_chat demo_json_loads ''what?'' = Inl e"
    by (elim conjE)
  with h3 have p2: "detect_intent demo_chat demo_json_loads ''what?''
                      = Inl LanguageModelServiceError"
    by simp
  from at_nothing have "demo_chat ''say nothing'' = Inr None
          \<longrightarrow> detect_intent demo_chat demo_json_loads ''say nothing'' = Inl TypeError"
    by (elim conjE)
  with h3' have p2': "detect_intent demo_chat demo_json_loads ''say nothing'' = Inl TypeError"
    by simp
  have h4: "detect_intent (chat_classify demo_ext) (json_loads demo_ext) ''hello''
              = Inr (JObj [(''intent'', JStr ''greeting''), (''topic'', JStr ''hello'')])"
    using p1 by (simp add: demo_ext_def parsed_greeting_def)
  have h5: "map_of [(''intent'', JStr ''greeting''), (''topic'', JStr ''hello'')] ''intent''
              = Some (JStr ''greeting'')" by simp
  have h6: "map_of [(''intent'', JStr ''greeting''), (''topic'', JStr ''hello'')] ''topic''
              = Some (JStr ''hello'')" by simp
  have h7: "JStr ''greeting'' \<notin> JStr ` set intent_types"
    by (simp add: intent_types_def image_iff)
  from at_hello have "\<forall>kvs i topic.
          detect_intent (chat_classify demo_ext) (json_loads demo_ext) ''hello'' = Inr (JObj kvs)
          \<and> map_of kvs ''intent'' = Some i \<and> map_of kvs ''topic'' = Some topic
          \<and> i \<notin> JStr ` set intent_types
          \<longrightarrow> handle_user_query demo_ext ''hello'' None None []
                = Inr \<lparr>r_intent = i, r_query = ''hello'', r_results = None, r_response = None,
                        r_timestamps = None, r_context = None, r_snippet_path = None,
                        r_key_points = None\<rparr>"
    by (elim conjE)
  from this [rule_format, OF conjI [OF h4 conjI [OF h5 conjI [OF h6 h7]]]]
  have p3: "handle_user_query demo_ext ''hello'' None None []
       = Inr \<lparr>r_intent = JStr ''greeting'', r_query = ''hello'', r_results = None,
               r_response = None, r_timestamps = None, r_context = None,
               r_snippet_path = None, r_key_points = None\<rparr>" .
  have h8: "detect_intent (chat_classify demo_ext) (json_loads demo_ext) ''summary''
              = Inr (JObj [(''intent'', JStr ''summary'')])"
    by (simp add: detect_intent_def demo_ext_def demo_reply_defs)
  have h9: "map_of [(''intent'', JStr ''summary'')] ''intent'' = None
            \<or> map_of [(''intent'', JStr ''summary'')] ''topic'' = None" by simp
  from at_what have "\<forall>kvs.
          detect_intent (chat_classify demo_ext) (json_loads demo_ext) ''summary'' = Inr (JObj kvs)
          \<and> (map_of kvs ''intent'' = None \<or> map_of kvs ''topic'' = None)
          \<longrightarrow> handle_user_query demo_ext ''summary'' None None [] = Inl KeyError"
    by (elim conjE)
  from this [rule_format, OF conjI [OF h8 h9]]
  have p4: "handle_user_query demo_ext ''summary'' None None [] = Inl KeyError" .
  from p1 p2 p2' p3 p4 show ?thesis by simp
qed

text \<open>
  C8 as stated fails: on the reply with the intent \<open>greeting\<close> the classification
  returns normally, with a result whose intent is not one of the five values.
\<close>

theorem intent_not_validated_counterexample:
  "detect_intent demo_chat demo_json_loads ''hello'' = Inr parsed_greeting
   \<and> \<not> well_formed_intent parsed_greeting"
  by (simp add: detect_intent_def demo_reply_defs well_formed_intent_def intent_types_def)

text \<open>
  C9, as amended. When the classification result is an object with the intent summary
  (or keypoints) and a topic key, and no transcript is supplied,
  \<^verbatim>\<open>handle_user_query\<close> raises nothing: it returns a response whose text is
  \<open>Transcript required for summary\<close> (or \<open>Transcript required for key points\<close>), with
  no other key set, and the language model is not asked to summarize. When the object
  has an intent but no topic key, line 241 raises \<^verbatim>\<open>KeyError\<close> before any routing.
\<close>

theorem missing_transcript_returns_message:
  assumes "detect_intent (chat_classify ext) (json_loads ext) q = Inr (JObj kvs)"
  shows "(map_of kvs ''intent'' = Some (JStr ''summary'') \<and> map_of kvs ''topic'' \<noteq> None
            \<longrightarrow> handle_user_query ext q None video_path history
              = Inr \<lparr>r_intent = JStr ''summary'', r_query = q, r_results = None,
                      r_response = Some (Literal ''Transcript required for summary''),
                      r_timestamps = None, r_context = None, r_snippet_path = None,
                      r_key_points = None\<rparr>)
         \<and> (map_of kvs ''intent'' = Some (JStr ''keypoints'') \<and> map_of kvs ''topic'' \<noteq> None
            \<longrightarrow> handle_user_query ext q None video_path history
              = Inr \<lparr>r_intent = JStr ''keypoints'', r_query = q, r_results = None,
                      r_response = Some (Literal ''Transcript required for key points''),
                      r_timestamps = None, r_context = None, r_snippet_path = None,
                      r_key_points = None\<rparr>)
         \<and> (map_of kvs ''intent'' \<noteq> None \<and> map_of kvs ''topic'' = None
            \<longrightarrow> handle_user_query ext q None video_path history = Inl KeyError)"
proof -
  have nt: "handle_user_query ext q None video_path history = Inl KeyError"
    if "map_of kvs ''intent'' \<noteq> None" and "map_of kvs ''topic'' = None"
  proof -
    from that obtain i where "py_getitem (JObj kvs) ''intent'' = Inr i"
      by (auto simp: py_getitem_def)
    moreover from that have "py_getitem (JObj kvs) ''topic'' = Inl KeyError"
      by (simp add: py_getitem_def)
    ultimately show ?thesis using assms by (simp add: handle_user_query_def)
  qed
  have sm: "handle_user_query ext q None video_path history
              = Inr \<lparr>r_intent = JStr ''summary'', r_query = q, r_results = None,
                      r_response = Some (Literal ''Transcript required for summary''),
                      r_timestamps = None, r_context = None, r_snippet_path = None,
                      r_key_points = None\<rparr>"
    if "map_of kvs ''intent'' = Some (JStr ''summary'')" and "map_of kvs ''topic'' \<noteq> None"
  proof -
    from that obtain topic where "map_of kvs ''topic'' = Some topic" by auto
    with that(1) assms show ?thesis
      by (simp add: handle_user_query_def py_getitem_def Let_def)
  qed
  have kp: "handle_user_query ext q None video_path history
              = Inr \<lparr>r_intent = JStr ''keypoints'', r_query = q, r_results = None,
                      r_response = Some (Literal ''Transcript required for key points''),
                      r_timestamps = None, r_context = None, r_snippet_path = None,
                      r_key_points = None\<rparr>"
    if "map_of kvs ''intent'' = Some (JStr ''keypoints'')" and "map_of kvs ''topic'' \<noteq> None"
  proof -
    from that obtain topic where "map_of kvs ''topic'' = Some topic" by auto
    with that(1) assms show ?thesis
      by (simp add: handle_user_query_def py_getitem_def Let_def)
  qed
  from nt sm kp show ?thesis by blast
qed

theorem missing_transcript_returns_message_witness:
  "handle_user_query demo_ext ''list the key points'' None None []
     = Inr \<lparr>r_intent = JStr ''keypoints'', r_query = ''list the key points'',
             r_results = None,
             r_response = Some (Literal ''Transcript required for key points''),
             r_timestamps = None, r_context = None, r_snippet_path = None,
             r_key_points = None\<rparr>
   \<and> handle_user_query demo_ext ''summary'' None None [] = Inl KeyError"
proof -
  have h1: "detect_intent (chat_classify demo_ext) (json_loads demo_ext) ''list the key points''
              = Inr (JObj [(''intent'', JStr ''keypoints''), (''topic'', JStr ''the video''),
                           (''parameters'', null_parameters)])"
    by (simp add: detect_intent_def demo_ext_def demo_chat_def demo_json_loads_def
        reply_summary_def reply_keypoints_def parsed_keypoints_def)
  have h2: "detect_intent (chat_classify demo_ext) (json_loads demo_ext) ''summary''
              = Inr (JObj [(''intent'', JStr ''summary'')])"
    by (simp add: detect_intent_def demo_ext_def demo_reply_defs)
  show ?thesis
    using missing_transcript_returns_message [OF h1, of None "[]"]
          missing_transcript_returns_message [OF h2, of None "[]"]
    by simp
qed

text \<open>
  C9 as stated fails: the summary query without a transcript ends with an ordinary
  response, not with an error.
\<close>

theorem missing_transcript_no_error_counterexample:
  "handle_user_query demo_ext ''summarize the video'' None None []
     = Inr \<lparr>r_intent = JStr ''summary'', r_query = ''summarize the video'',
             r_results = None,
             r_response = Some (Literal ''Transcript required for summary''),
             r_timestamps = None, r_context = None, r_snippet_path = None,
             r_key_points = None\<rparr>"
  by (simp add: handle_user_query_def detect_intent_def demo_ext_def demo_reply_defs
      py_getitem_def)

section \<open>Index store\<close>

lemma digit_char_inj: "a < 10 \<Longrightarrow> b < 10 \<Longrightarrow> digit_char a = digit_char b \<Longrightarrow> a = b"
proof -
  assume a: "a < 10" and b: "b < 10" and eq: "digit_char a = digit_char b"
  from eq have "(of_char (char_of (48 + a)) :: nat) = of_char (char_of (48 + b))"
    by (simp add: digit_char_def)
  with a b show "a = b" by simp
qed

lemma str_nat_nonempty: "str_nat n \<noteq> []"
  by (subst str_nat.simps) simp

lemma str_nat_inj: "str_nat n = str_nat m \<Longrightarrow> n = m"
proof (induction n arbitrary: m rule: str_nat.induct)
  case (1 n)
  show ?case
  proof (cases "n < 10")
    case small: True
    show ?thesis
    proof (cases "m < 10")
      case True
      with small "1.prems" show ?thesis
        by (simp add: str_nat.simps [of n] str_nat.simps [of m] digit_char_inj)
    next
      case False
      with small "1.prems" str_nat_nonempty [of "m div 10"] show ?thesis
        by (simp add: str_nat.simps [of n] str_nat.simps [of m])
    qed
  next
    case big: False
    show ?thesis
    proof (cases "m < 10")
      case True
      with big "1.prems" str_nat_nonempty [of "n div 10"] show ?thesis
        by (simp add: str_nat.simps [of n] str_nat.simps [of m])
    next
      case False
      with big "1.prems" have eqs: "str_nat (n div 10) = str_nat (m div 10)"
        and d: "digit_char (n mod 10) = digit_char (m mod 10)"
        by (simp_all add: str_nat.simps [of n] str_nat.simps [of m])
      from "1.IH" [OF big eqs] have q: "n div 10 = m div 10" .
      from d have r: "n mod 10 = m mod 10" by (intro digit_char_inj) simp_all
      from q r show ?thesis by (metis div_mult_mod_eq)
    qed
  qed
qed

lemma chunk_ids_distinct: "distinct (map (\<lambda>i. ''chunk_'' @ str_nat i) [0..<n])"
  by (simp add: distinct_map inj_on_def str_nat_inj)

lemma clear_collection:
  "(if collection_get_ids c \<noteq> [] then collection_delete (collection_get_ids c) c else c) = []"
  by (cases c) (auto simp: collection_get_ids_def collection_delete_def filter_empty_conv)

lemma update_fresh: "k \<notin> fst ` set al \<Longrightarrow> AList.update k v al = al @ [(k, v)]"
  by (induction al) auto

lemma fold_update_fresh:
  "distinct (map fst kvs) \<Longrightarrow> fst ` set kvs \<inter> fst ` set acc = {} \<Longrightarrow>
   fold (\<lambda>(k, v). AList.update k v) kvs acc = acc @ kvs"
proof (induction kvs arbitrary: acc)
  case Nil
  then show ?case by simp
next
  case (Cons kv kvs)
  obtain k v where kv: "kv = (k, v)" by (cases kv)
  from Cons.prems have fresh: "k \<notin> fst ` set acc" by (auto simp: kv)
  have "fold (\<lambda>(k, v). AList.update k v) (kv # kvs) acc
          = fold (\<lambda>(k, v). AList.update k v) kvs (acc @ [(k, v)])"
    by (simp add: kv update_fresh [OF fresh])
  also have "\<dots> = (acc @ [(k, v)]) @ kvs"
    using Cons.prems by (intro Cons.IH) (auto simp: kv)
  finally show ?case by (simp add: kv)
qed

lemma collection_add_empty:
  assumes "collection_add documents embeddings metadatas ids [] = Inr c"
    and "distinct ids"
  shows "map fst c = ids \<and> map (m_document \<circ> snd) c = documents
         \<and> map (\<lambda>kv. (m_start (snd kv), m_end (snd kv))) c = metadatas
         \<and> length c = length ids \<and> ids \<noteq> []"
proof -
  let ?ms = "map (\<lambda>(d, e, m). \<lparr>m_document = d, m_embedding = e, m_start = fst m, m_end = snd m\<rparr>)
               (zip documents (zip embeddings metadatas))"
  from assms(1) have len: "length documents = length ids" "length embeddings = length ids"
    "length metadatas = length ids" and ne: "ids \<noteq> []"
    and c: "c = fold (\<lambda>(k, v). AList.update k v) (zip ids ?ms) []"
    by (auto simp: collection_add_def split: if_splits)
  have lms: "length ?ms = length ids" using len by simp
  have "distinct (map fst (zip ids ?ms))" using assms(2) lms by simp
  then have c': "c = zip ids ?ms" unfolding c by (subst fold_update_fresh) simp_all
  have "map m_document ?ms = map fst (zip documents (zip embeddings metadatas))"
    by (simp add: case_prod_beta comp_def)
  also have "\<dots> = documents" using len by simp
  finally have docs: "map m_document ?ms = documents" .
  have "map (\<lambda>m. (m_start m, m_end m)) ?ms
          = map snd (map snd (zip documents (zip embeddings metadatas)))"
    by (simp add: case_prod_beta comp_def)
  also have "\<dots> = map snd (zip embeddings metadatas)" using len by simp
  also have "\<dots> = metadatas" using len by simp
  finally have metas: "map (\<lambda>m. (m_start m, m_end m)) ?ms = metadatas" .
  have "map (m_document \<circ> snd) c = map m_document (map snd c)" by simp
  also have "\<dots> = documents" using lms docs by (simp add: c' del: map_map)
  finally have 1: "map (m_document \<circ> snd) c = documents" .
  have "map (\<lambda>kv. (m_start (snd kv), m_end (snd kv))) c
          = map (\<lambda>m. (m_start m, m_end m)) (map snd c)" by (simp add: comp_def)
  also have "\<dots> = metadatas" using lms metas by (simp add: c' del: map_map)
  finally have 2: "map (\<lambda>kv. (m_start (snd kv), m_end (snd kv))) c = metadatas" .
  from 1 2 lms ne show ?thesis by (simp add: c')
qed

lemma get_or_create_lookup:
  "map_of (AList.update name c (collections (get_or_create_collection name st))) n'
     = (if n' = name then Some c else map_of (collections st) n')"
  by (auto simp: get_or_create_collection_def update_conv' split: option.splits)

lemma index_transcript_unfold:
  "index_transcript md5 emb t vid st =
     (let name = derive_collection_name md5 t vid;
          st2 = (get_or_create_collection name st)
                  \<lparr>collections :=
                     AList.update name [] (collections (get_or_create_collection name st))\<rparr>;
          chunks = chunk_transcript t default_min_chunk_length
      in case generate_embeddings emb (map chunk_text chunks) of
           Inl e \<Rightarrow> (Inl e, st2)
         | Inr embeddings \<Rightarrow>
             (case collection_add (map chunk_text chunks) embeddings
                     (map (\<lambda>c. (chunk_start c, chunk_end c)) chunks)
                     (map (\<lambda>i. ''chunk_'' @ str_nat i) [0..<length chunks]) [] of
                Inl e \<Rightarrow> (Inl e, st2)
              | Inr c \<Rightarrow>
                  (Inr name,
                   st2\<lparr>collections := AList.update name c (collections st2),
                       current_collection_name := Some name\<rparr>)))"
  unfolding index_transcript_def Let_def clear_collection ..

lemma index_transcript_success:
  assumes "index_transcript md5 emb t vid st = (Inr n, st')"
  shows "n = derive_collection_name md5 t vid
    \<and> current_collection_name st' = Some n
    \<and> (\<exists>c. map_of (collections st') n = Some c
          \<and> map fst c = map (\<lambda>i. ''chunk_'' @ str_nat i)
                           [0..<length (chunk_transcript t default_min_chunk_length)]
          \<and> distinct (map fst c)
          \<and> map (m_document \<circ> snd) c
                = map chunk_text (chunk_transcript t default_min_chunk_length)
          \<and> map (\<lambda>kv. (m_start (snd kv), m_end (snd kv))) c
                = map (\<lambda>c. (chunk_start c, chunk_end c))
                    (chunk_transcript t default_min_chunk_length)
          \<and> length c = length (chunk_transcript t default_min_chunk_length))
    \<and> (\<forall>n'. n' \<noteq> n \<longrightarrow> map_of (collections st') n' = map_of (collections st) n')"
proof -
  let ?name = "derive_collection_name md5 t vid"
  let ?chunks = "chunk_transcript t default_min_chunk_length"
  let ?ids = "map (\<lambda>i. ''chunk_'' @ str_nat i) [0..<length ?chunks]"
  let ?st1 = "get_or_create_collection ?name st"
  from assms obtain embeddings c
    where add: "collection_add (map chunk_text ?chunks) embeddings
                  (map (\<lambda>c. (chunk_start c, chunk_end c)) ?chunks) ?ids [] = Inr c"
      and n: "n = ?name"
      and st': "st' = ?st1\<lparr>collections :=
                        AList.update ?name c (AList.update ?name [] (collections ?st1)),
                      current_collection_name := Some ?name\<rparr>"
    by (auto simp: index_transcript_unfold Let_def split: sum.splits)
  from collection_add_empty [OF add chunk_ids_distinct]
  have props: "map fst c = ?ids" "map (m_document \<circ> snd) c = map chunk_text ?chunks"
    "map (\<lambda>kv. (m_start (snd kv), m_end (snd kv))) c
       = map (\<lambda>c. (chunk_start c, chunk_end c)) ?chunks"
    "length c = length ?chunks"
    by simp_all
  have look: "map_of (collections st') n' = (if n' = ?name then Some c else map_of (collections st) n')"
    for n'
    by (simp add: st' get_or_create_lookup)
  have "distinct (map fst c)" using props(1) chunk_ids_distinct by simp
  with props look n st' show ?thesis by simp
qed

lemma index_transcript_failure:
  assumes "index_transcript md5 emb t vid st = (Inl e, st')"
  shows "map_of (collections st') (derive_collection_name md5 t vid) = Some []
    \<and> current_collection_name st' = current_collection_name st
    \<and> (\<forall>n'. n' \<noteq> derive_collection_name md5 t vid
            \<longrightarrow> map_of (collections st') n' = map_of (collections st) n')"
proof -
  let ?name = "derive_collection_name md5 t vid"
  let ?st1 = "get_or_create_collection ?name st"
  from assms have st': "st' = ?st1\<lparr>collections := AList.update ?name [] (collections ?st1)\<rparr>"
    by (auto simp: index_transcript_unfold Let_def split: sum.splits)
  have cur: "current_collection_name ?st1 = current_collection_name st"
    by (simp add: get_or_create_collection_def split: option.splits)
  show ?thesis by (simp add: st' get_or_create_lookup cur)
qed

lemma chunk_loop_nonempty:
  "segs \<noteq> [] \<or> chunks \<noteq> [] \<Longrightarrow> chunk_loop m segs cur cs ce chunks \<noteq> []"
proof (induction segs arbitrary: cur cs ce chunks)
  case Nil
  then show ?case by simp
next
  case (Cons seg rest)
  show ?case
  proof (cases "rest = []")
    case True
    then show ?thesis by (simp add: Let_def)
  next
    case False
    then show ?thesis using Cons.IH by (simp add: Let_def)
  qed
qed

lemma chunk_transcript_nonempty:
  "segments t \<noteq> [] \<Longrightarrow> chunk_transcript t m \<noteq> []"
  by (simp add: chunk_transcript_def chunk_loop_nonempty)

lemma index_transcript_completes:
  assumes emb: "generate_embeddings emb
                  (map chunk_text (chunk_transcript t default_min_chunk_length)) = Inr embeddings"
    and len: "length embeddings = length (chunk_transcript t default_min_chunk_length)"
    and ne: "segments t \<noteq> []"
  shows "fst (index_transcript md5 emb t vid st) = Inr (derive_collection_name md5 t vid)"
proof -
  have "chunk_transcript t default_min_chunk_length \<noteq> []"
    using ne by (rule chunk_transcript_nonempty)
  then show ?thesis
    using emb len
    by (simp add: index_transcript_unfold Let_def collection_add_def)
qed

section \<open>Indexing\<close>

lemma str_nat_0: "str_nat 0 = ''0''"
  by code_simp

lemmas demo_index_defs =
  index_transcript_def derive_collection_name_def get_or_create_collection_def
  collection_get_ids_def collection_delete_def collection_add_def chunk_transcript_def
  default_min_chunk_length_def generate_embeddings.simps str_nat_0 Let_def
  demo_md5_def demo_embed_def

lemma collection_count_success:
  assumes "index_transcript md5 emb t vid st = (Inr n, st')"
  shows "collection_count st' n = length (chunk_transcript t default_min_chunk_length)"
  using index_transcript_success [OF assms] by (auto simp: collection_count_def)

lemma generate_embeddings_total:
  assumes "\<forall>batch. \<exists>vs. emb batch = Inr vs \<and> length vs = length batch"
  shows "\<exists>vs. generate_embeddings emb texts = Inr vs \<and> length vs = length texts"
  using assms
proof (induction emb texts rule: generate_embeddings.induct)
  case (1 embed_api texts)
  show ?case
  proof (cases "texts = []")
    case True
    then show ?thesis by (simp add: generate_embeddings.simps)
  next
    case False
    from "1.prems" obtain vs1 where b: "embed_api (take 100 texts) = Inr vs1"
      and l1: "length vs1 = length (take 100 texts)" by blast
    from "1.IH" [OF False b "1.prems"] obtain vs2
      where r: "generate_embeddings embed_api (drop 100 texts) = Inr vs2"
        and l2: "length vs2 = length (drop 100 texts)" by blast
    have "generate_embeddings embed_api texts = Inr (vs1 @ vs2)"
      using False b r by (simp add: generate_embeddings.simps [of embed_api texts])
    moreover have "length (vs1 @ vs2) = length texts" using l1 l2 by simp
    ultimately show ?thesis by blast
  qed
qed

lemma index_transcript_empty:
  assumes "segments t = []"
  shows "fst (index_transcript md5 emb t vid st) = Inl ValueError"
  using assms
  by (simp add: index_transcript_unfold Let_def chunk_transcript_def
      generate_embeddings.simps collection_add_def)

text \<open>
  C3. Indexing clears before it repopulates. Let both calls meet an embedding service
  that returns one vector per text. Then, whatever the collection of the derived name
  held before, after the first call and again after the second the collection holds
  exactly one member per chunk, with distinct ids and the chunk texts as documents, so
  its member count is the chunk count, once. For a transcript with a segment both calls
  return the derived name. For any embedding service, a call that raises leaves the
  collection existing and empty, never with older members.
\<close>

theorem index_transcript_twice_counts_once:
  assumes "\<forall>batch. \<exists>vs. emb1 batch = Inr vs \<and> length vs = length batch"
    and "\<forall>batch. \<exists>vs. emb2 batch = Inr vs \<and> length vs = length batch"
  shows "collection_count (snd (index_transcript md5 emb1 t vid st))
           (derive_collection_name md5 t vid)
         = length (chunk_transcript t default_min_chunk_length)
    \<and> collection_count
         (snd (index_transcript md5 emb2 t vid (snd (index_transcript md5 emb1 t vid st))))
         (derive_collection_name md5 t vid)
       = length (chunk_transcript t default_min_chunk_length)
    \<and> (\<exists>c. map_of (collections
                (snd (index_transcript md5 emb2 t vid
                        (snd (index_transcript md5 emb1 t vid st)))))
              (derive_collection_name md5 t vid) = Some c
          \<and> distinct (map fst c)
          \<and> map (m_document \<circ> snd) c
                = map chunk_text (chunk_transcript t default_min_chunk_length))
    \<and> (segments t \<noteq> [] \<longrightarrow>
          fst (index_transcript md5 emb1 t vid st) = Inr (derive_collection_name md5 t vid)
          \<and> fst (index_transcript md5 emb2 t vid (snd (index_transcript md5 emb1 t vid st)))
              = Inr (derive_collection_name md5 t vid))
    \<and> (\<forall>emb e st0 st'. index_transcript md5 emb t vid st0 = (Inl e, st')
          \<longrightarrow> map_of (collections st') (derive_collection_name md5 t vid) = Some [])"
proof -
  let ?name = "derive_collection_name md5 t vid"
  let ?chunks = "chunk_transcript t default_min_chunk_length"
  have key: "fst (index_transcript md5 emb t vid s) = (if segments t = [] then Inl ValueError
                                                       else Inr ?name)
           \<and> (\<exists>c. map_of (collections (snd (index_transcript md5 emb t vid s))) ?name = Some c
                 \<and> length c = length ?chunks \<and> distinct (map fst c)
                 \<and> map (m_document \<circ> snd) c = map chunk_text ?chunks)"
    if good: "\<forall>batch. \<exists>vs. emb batch = Inr vs \<and> length vs = length batch" for emb s
  proof (cases "segments t = []")
    case True
    obtain r s' where eq: "index_transcript md5 emb t vid s = (r, s')"
      by (cases "index_transcript md5 emb t vid s")
    with index_transcript_empty [OF True, of md5 emb vid s] have r: "r = Inl ValueError"
      by simp
    from index_transcript_failure [OF eq [unfolded r]]
    have "map_of (collections s') ?name = Some []" by simp
    moreover have "?chunks = []" using True by (simp add: chunk_transcript_def)
    ultimately show ?thesis using True eq r by simp
  next
    case False
    from generate_embeddings_total [OF good, of "map chunk_text ?chunks"]
    obtain vs where g: "generate_embeddings emb (map chunk_text ?chunks) = Inr vs"
      and l: "length vs = length ?chunks" by auto
    from index_transcript_completes [OF g l False, of md5 vid s]
    obtain s' where eq: "index_transcript md5 emb t vid s = (Inr ?name, s')"
      by (cases "index_transcript md5 emb t vid s") simp
    from index_transcript_success [OF eq] False eq show ?thesis by auto
  qed
  from key [OF assms(1), of st]
  have one: "collection_count (snd (index_transcript md5 emb1 t vid st)) ?name = length ?chunks"
    by (auto simp: collection_count_def)
  from key [OF assms(2), of "snd (index_transcript md5 emb1 t vid st)"]
  have two: "\<exists>c. map_of (collections
                (snd (index_transcript md5 emb2 t vid
                        (snd (index_transcript md5 emb1 t vid st))))) ?name = Some c
          \<and> length c = length ?chunks \<and> distinct (map fst c)
          \<and> map (m_document \<circ> snd) c = map chunk_text ?chunks"
    by blast
  then have cnt: "collection_count
         (snd (index_transcript md5 emb2 t vid (snd (index_transcript md5 emb1 t vid st))))
         ?name = length ?chunks"
    by (auto simp: collection_count_def)
  have ret: "segments t \<noteq> [] \<longrightarrow>
          fst (index_transcript md5 emb1 t vid st) = Inr ?name
          \<and> fst (index_transcript md5 emb2 t vid (snd (index_transcript md5 emb1 t vid st)))
              = Inr ?name"
    using key [OF assms(1), of st]
          key [OF assms(2), of "snd (index_transcript md5 emb1 t vid st)"]
    by simp
  have fail: "\<forall>emb e st0 st'. index_transcript md5 emb t vid st0 = (Inl e, st')
          \<longrightarrow> map_of (collections st') ?name = Some []"
    using index_transcript_failure by blast
  from one cnt two ret fail show ?thesis by blast
qed

lemma demo_reindex:
  "index_transcript demo_md5 demo_embed demo_transcript None demo_stale_state
     = (Inr ''transcript_video_fedcba987654'',
        \<lparr>collections =
           [(''transcript_video_fedcba987654'',
             [(''chunk_0'', \<lparr>m_document = ''intro thanks'', m_embedding = [12], m_start = 0,
                            m_end = 42\<rparr>)])],
         current_collection_name = Some ''transcript_video_fedcba987654''\<rparr>)"
  by (simp add: demo_index_defs demo_transcript_def demo_stale_state_def)

lemma demo_name:
  "derive_collection_name demo_md5 demo_transcript None = ''transcript_video_fedcba987654''"
  by (simp add: derive_collection_name_def demo_md5_def demo_transcript_def)

theorem index_transcript_twice_counts_once_witness:
  "collection_count demo_stale_state ''transcript_video_fedcba987654'' = 2
   \<and> length (chunk_transcript demo_transcript default_min_chunk_length) = 1
   \<and> fst (index_transcript demo_md5 demo_embed demo_transcript None demo_stale_state)
       = Inr ''transcript_video_fedcba987654''
   \<and> fst (index_transcript demo_md5 demo_embed demo_transcript None
             (snd (index_transcript demo_md5 demo_embed demo_transcript None demo_stale_state)))
       = Inr ''transcript_video_fedcba987654''
   \<and> collection_count
         (snd (index_transcript demo_md5 demo_embed demo_transcript None demo_stale_state))
         ''transcript_video_fedcba987654'' = 1
   \<and> collection_count
         (snd (index_transcript demo_md5 demo_embed demo_transcript None
                 (snd (index_transcript demo_md5 demo_embed demo_transcript None
                         demo_stale_state))))
         ''transcript_video_fedcba987654'' = 1"
proof -
  have good: "\<forall>batch. \<exists>vs. demo_embed batch = Inr vs \<and> length vs = length batch"
    by (simp add: demo_embed_def)
  have ne: "segments demo_transcript \<noteq> []" by (simp add: demo_transcript_def)
  have stale: "collection_count demo_stale_state ''transcript_video_fedcba987654'' = 2"
    by (simp add: collection_count_def demo_stale_state_def)
  have one: "length (chunk_transcript demo_transcript default_min_chunk_length) = 1"
    by (simp add: chunk_transcript_def demo_transcript_def default_min_chunk_length_def)
  from index_transcript_twice_counts_once
         [OF good good, of demo_md5 demo_transcript None demo_stale_state]
       ne stale one
  show ?thesis by (simp add: demo_name)
qed

text \<open>
  C10. Without an explicit \<^verbatim>\<open>video_id\<close> (\<^verbatim>\<open>None\<close> or the empty string) the collection
  name is a function of the first 1000 characters of \<^verbatim>\<open>full_text\<close>: two transcripts that
  agree there get the same name, and indexing the second after the first overwrites the
  collection of the first with the chunks of the second.
\<close>

theorem collection_name_depends_on_prefix:
  assumes "take 1000 (full_text t1) = take 1000 (full_text t2)"
  shows "derive_collection_name md5 t1 None = derive_collection_name md5 t2 None
    \<and> derive_collection_name md5 t1 (Some []) = derive_collection_name md5 t2 None
    \<and> (\<forall>emb1 emb2 st n1 st1 n2 st2.
          index_transcript md5 emb1 t1 None st = (Inr n1, st1)
          \<and> index_transcript md5 emb2 t2 None st1 = (Inr n2, st2)
          \<longrightarrow> n2 = n1
              \<and> (\<exists>c. map_of (collections st2) n1 = Some c
                    \<and> map (m_document \<circ> snd) c
                          = map chunk_text (chunk_transcript t2 default_min_chunk_length)))"
proof -
  have a: "derive_collection_name md5 t1 None = derive_collection_name md5 t2 None"
    using assms by (simp add: derive_collection_name_def)
  have b: "derive_collection_name md5 t1 (Some []) = derive_collection_name md5 t2 None"
    using assms by (simp add: derive_collection_name_def)
  have c: "n2 = n1
         \<and> (\<exists>c. map_of (collections st2) n1 = Some c
               \<and> map (m_document \<circ> snd) c
                     = map chunk_text (chunk_transcript t2 default_min_chunk_length))"
    if h1: "index_transcript md5 emb1 t1 None st = (Inr n1, st1)"
      and h2: "index_transcript md5 emb2 t2 None st1 = (Inr n2, st2)"
    for emb1 emb2 st n1 st1 n2 st2
  proof -
    from index_transcript_success [OF h1] index_transcript_success [OF h2] a
    have same: "n2 = n1" by simp
    from index_transcript_success [OF h2] same show ?thesis by auto
  qed
  from a b c show ?thesis by blast
qed

lemma demo_index_a:
  "index_transcript demo_md5 demo_embed demo_transcript_a None demo_state
     = (Inr ''transcript_video_0123456789ab'',
        \<lparr>collections =
           [(''transcript_video_0123456789ab'',
             [(''chunk_0'', \<lparr>m_document = ''alpha'', m_embedding = [5], m_start = 0,
                            m_end = 5\<rparr>)])],
         current_collection_name = Some ''transcript_video_0123456789ab''\<rparr>)"
  by (simp add: demo_index_defs demo_transcript_a_def demo_state_def)

lemma demo_index_b:
  "index_transcript demo_md5 demo_embed demo_transcript_b None
     \<lparr>collections =
        [(''transcript_video_0123456789ab'',
          [(''chunk_0'', \<lparr>m_document = ''alpha'', m_embedding = [5], m_start = 0,
                         m_end = 5\<rparr>)])],
      current_collection_name = Some ''transcript_video_0123456789ab''\<rparr>
     = (Inr ''transcript_video_0123456789ab'',
        \<lparr>collections =
           [(''transcript_video_0123456789ab'',
             [(''chunk_0'', \<lparr>m_document = ''beta gamma'', m_embedding = [10], m_start = 0,
                            m_end = 9\<rparr>)])],
         current_collection_name = Some ''transcript_video_0123456789ab''\<rparr>)"
  by (simp add: demo_index_defs demo_transcript_b_def)

theorem collection_name_depends_on_prefix_witness:
  "full_text demo_transcript_a \<noteq> full_text demo_transcript_b
   \<and> derive_collection_name demo_md5 demo_transcript_a None
       = derive_collection_name demo_md5 demo_transcript_b None
   \<and> (\<exists>c. map_of [(''transcript_video_0123456789ab'',
                     [(''chunk_0'', \<lparr>m_document = ''beta gamma'', m_embedding = [10],
                                    m_start = 0, m_end = 9\<rparr>)])]
              ''transcript_video_0123456789ab'' = Some c
          \<and> map (m_document \<circ> snd) c = [''beta gamma''])"
proof -
  have h: "take 1000 (full_text demo_transcript_a) = take 1000 (full_text demo_transcript_b)"
    by (simp add: demo_transcript_a_def demo_transcript_b_def)
  have d: "full_text demo_transcript_a \<noteq> full_text demo_transcript_b"
    by (simp add: demo_transcript_a_def demo_transcript_b_def)
  from collection_name_depends_on_prefix [OF h, of demo_md5] demo_index_a demo_index_b d
  show ?thesis by simp
qed

section \<open>Self-healing index guard\<close>

lemma str_replace_absent:
  "old \<noteq> [] \<Longrightarrow> \<not> sublist old s \<Longrightarrow> str_replace old new s = s"
proof (induction s)
  case Nil
  then show ?case by simp
next
  case (Cons c cs)
  from Cons.prems(2) have np: "\<not> prefix old (c # cs)" and ns: "\<not> sublist old cs"
    by (simp_all add: sublist_Cons_right)
  with Cons.prems(1) Cons.IH show ?case by simp
qed

lemma str_replace_strip_prefix:
  assumes "\<not> sublist ''transcript_'' vid"
  shows "str_replace ''transcript_'' [] (''transcript_'' @ vid) = vid"
  using str_replace_absent [of "''transcript_''" vid "[]"] assms by simp

lemma derive_collection_name_given:
  "vid \<noteq> [] \<Longrightarrow> derive_collection_name md5 t (Some vid) = ''transcript_'' @ vid"
  by (simp add: derive_collection_name_def)

lemma ensure_rebuild:
  assumes absent: "\<not> collection_exists name st"
    and ne: "segments tr \<noteq> []"
    and emb: "generate_embeddings emb
                (map chunk_text (chunk_transcript tr default_min_chunk_length)) = Inr embeddings"
    and len: "length embeddings = length (chunk_transcript tr default_min_chunk_length)"
  shows "\<exists>st'. ensure_collection_indexed md5 emb name (Some tr) st = (Inr True, st')
           \<and> current_collection_name st'
               = Some (derive_collection_name md5 tr (Some (str_replace ''transcript_'' [] name)))
           \<and> collection_count st'
                 (derive_collection_name md5 tr (Some (str_replace ''transcript_'' [] name)))
               = length (chunk_transcript tr default_min_chunk_length)
           \<and> collection_exists
                 (derive_collection_name md5 tr (Some (str_replace ''transcript_'' [] name))) st'"
proof -
  let ?vid = "Some (str_replace ''transcript_'' [] name)"
  let ?new = "derive_collection_name md5 tr ?vid"
  from index_transcript_completes [OF emb len ne, of md5 ?vid st]
  obtain st1 where ix: "index_transcript md5 emb tr ?vid st = (Inr ?new, st1)"
    by (cases "index_transcript md5 emb tr ?vid st") simp
  from index_transcript_success [OF ix]
  obtain c where c: "map_of (collections st1) ?new = Some c"
    and lc: "length c = length (chunk_transcript tr default_min_chunk_length)"
    by blast
  have res: "ensure_collection_indexed md5 emb name (Some tr) st
               = (Inr True, st1\<lparr>current_collection_name := Some ?new\<rparr>)"
    using absent ne ix by (simp add: ensure_collection_indexed_def Let_def)
  show ?thesis
    using res c lc by (simp add: collection_count_def collection_exists_def)
qed

text \<open>
  C5, as amended. If the collection exists, \<^verbatim>\<open>ensure_collection_indexed\<close> returns true
  and sets the current pointer to the name. If it does not exist and the transcript is
  \<^verbatim>\<open>None\<close> or has no segments, it returns false and changes nothing. If it does not
  exist, the transcript has a segment, the embedding call of the rebuild succeeds with one
  vector per chunk, and the name is \<open>transcript_\<close> followed by a non-empty id in which
  \<open>transcript_\<close> does not occur, it rebuilds the collection under that same name with
  one member per chunk, points the current pointer to it and returns true.
\<close>

theorem ensure_collection_indexed_cases:
  "(collection_exists name st \<longrightarrow>
      ensure_collection_indexed md5 emb name t st
        = (Inr True, st\<lparr>current_collection_name := Some name\<rparr>))
   \<and> (\<not> collection_exists name st \<and> (t = None \<or> (\<exists>tr. t = Some tr \<and> segments tr = []))
        \<longrightarrow> ensure_collection_indexed md5 emb name t st = (Inr False, st))
   \<and> (\<forall>tr embeddings vid.
          \<not> collection_exists name st \<and> t = Some tr \<and> segments tr \<noteq> []
          \<and> generate_embeddings emb
                (map chunk_text (chunk_transcript tr default_min_chunk_length)) = Inr embeddings
          \<and> length embeddings = length (chunk_transcript tr default_min_chunk_length)
          \<and> name = ''transcript_'' @ vid \<and> vid \<noteq> [] \<and> \<not> sublist ''transcript_'' vid
          \<longrightarrow> (\<exists>st'. ensure_collection_indexed md5 emb name t st = (Inr True, st')
                   \<and> current_collection_name st' = Some name
                   \<and> collection_exists name st'
                   \<and> collection_count st' name
                       = length (chunk_transcript tr default_min_chunk_length)))"
proof -
  have a: "collection_exists name st \<longrightarrow>
      ensure_collection_indexed md5 emb name t st
        = (Inr True, st\<lparr>current_collection_name := Some name\<rparr>)"
    by (simp add: ensure_collection_indexed_def)
  have b: "\<not> collection_exists name st \<and> (t = None \<or> (\<exists>tr. t = Some tr \<and> segments tr = []))
        \<longrightarrow> ensure_collection_indexed md5 emb name t st = (Inr False, st)"
    by (auto simp: ensure_collection_indexed_def)
  have c: "\<exists>st'. ensure_collection_indexed md5 emb name t st = (Inr True, st')
                   \<and> current_collection_name st' = Some name
                   \<and> collection_exists name st'
                   \<and> collection_count st' name
                       = length (chunk_transcript tr default_min_chunk_length)"
    if absent: "\<not> collection_exists name st" and t: "t = Some tr"
      and ne: "segments tr \<noteq> []"
      and emb: "generate_embeddings emb
                (map chunk_text (chunk_transcript tr default_min_chunk_length)) = Inr embeddings"
      and len: "length embeddings = length (chunk_transcript tr default_min_chunk_length)"
      and name: "name = ''transcript_'' @ vid" and vid: "vid \<noteq> []"
      and nosub: "\<not> sublist ''transcript_'' vid"
    for tr embeddings vid
  proof -
    have "str_replace ''transcript_'' [] name = vid"
      unfolding name using nosub by (rule str_replace_strip_prefix)
    then have "derive_collection_name md5 tr (Some (str_replace ''transcript_'' [] name)) = name"
      using vid by (simp add: derive_collection_name_given name)
    with ensure_rebuild [OF absent ne emb len, of md5] show ?thesis
      unfolding t by auto
  qed
  from a b c show ?thesis by blast
qed

lemma demo_embeddings:
  "generate_embeddings demo_embed
     (map chunk_text (chunk_transcript demo_transcript default_min_chunk_length)) = Inr [[12]]"
  by (simp add: demo_index_defs demo_transcript_def)

theorem ensure_collection_indexed_cases_witness:
  "ensure_collection_indexed demo_md5 demo_embed ''transcript_abc'' None demo_indexed_state
     = (Inr True, demo_indexed_state\<lparr>current_collection_name := Some ''transcript_abc''\<rparr>)
   \<and> ensure_collection_indexed demo_md5 demo_embed ''transcript_abc'' None demo_state
       = (Inr False, demo_state)
   \<and> (\<exists>st'. ensure_collection_indexed demo_md5 demo_embed ''transcript_abc''
                 (Some demo_transcript) demo_state = (Inr True, st')
            \<and> current_collection_name st' = Some ''transcript_abc''
            \<and> collection_exists ''transcript_abc'' st'
            \<and> collection_count st' ''transcript_abc'' = 1)"
proof -
  have ex: "collection_exists ''transcript_abc'' demo_indexed_state"
    by (simp add: collection_exists_def demo_indexed_state_def)
  have ab: "\<not> collection_exists ''transcript_abc'' demo_state"
    by (simp add: collection_exists_def demo_state_def)
  have ne: "segments demo_transcript \<noteq> []" by (simp add: demo_transcript_def)
  have len: "length [[12::real]]
               = length (chunk_transcript demo_transcript default_min_chunk_length)"
    by (simp add: chunk_transcript_def demo_transcript_def default_min_chunk_length_def)
  have nm: "''transcript_abc'' = ''transcript_'' @ ''abc''" by simp
  have ns: "\<not> sublist ''transcript_'' ''abc''" by (simp add: sublist_Cons_right)
  have p1: "ensure_collection_indexed demo_md5 demo_embed ''transcript_abc'' None
              demo_indexed_state
            = (Inr True, demo_indexed_state\<lparr>current_collection_name := Some ''transcript_abc''\<rparr>)"
    using ensure_collection_indexed_cases
            [of "''transcript_abc''" demo_indexed_state demo_md5 demo_embed None] ex
    by blast
  have p2: "ensure_collection_indexed demo_md5 demo_embed ''transcript_abc'' None demo_state
              = (Inr False, demo_state)"
    using ensure_collection_indexed_cases
            [of "''transcript_abc''" demo_state demo_md5 demo_embed None] ab
    by blast
  have p3: "\<exists>st'. ensure_collection_indexed demo_md5 demo_embed ''transcript_abc''
                 (Some demo_transcript) demo_state = (Inr True, st')
            \<and> current_collection_name st' = Some ''transcript_abc''
            \<and> collection_exists ''transcript_abc'' st'
            \<and> collection_count st' ''transcript_abc''
                = length (chunk_transcript demo_transcript default_min_chunk_length)"
    using ensure_collection_indexed_cases
            [of "''transcript_abc''" demo_state demo_md5 demo_embed "Some demo_transcript"]
          ab ne demo_embeddings len nm ns
    by blast
  from p1 p2 p3 len show ?thesis by simp
qed

text \<open>
  C5 as stated fails for a name that is not of that form: for the absent name \<open>abc\<close>
  the call returns true, but the collection it builds and points to is
  \<open>transcript_abc\<close>, and no collection named \<open>abc\<close> exists afterwards.
\<close>

theorem ensure_rebuilds_under_other_name_counterexample:
  "ensure_collection_indexed demo_md5 demo_embed ''abc'' (Some demo_transcript) demo_state
     = (Inr True,
        \<lparr>collections =
           [(''transcript_abc'',
             [(''chunk_0'', \<lparr>m_document = ''intro thanks'', m_embedding = [12], m_start = 0,
                            m_end = 42\<rparr>)])],
         current_collection_name = Some ''transcript_abc''\<rparr>)
   \<and> \<not> collection_exists ''abc''
         \<lparr>collections =
            [(''transcript_abc'',
              [(''chunk_0'', \<lparr>m_document = ''intro thanks'', m_embedding = [12], m_start = 0,
                             m_end = 42\<rparr>)])],
          current_collection_name = Some ''transcript_abc''\<rparr>"
  by (simp add: ensure_collection_indexed_def collection_exists_def demo_index_defs
      demo_transcript_def demo_state_def)

end
